theory Spec2Isabelle
  imports Main "HOL-Library.Word" "HOL-Library.FSet"
begin

unbundle bit_operations_syntax

section \<open>The secure wallet adapter (src/adapter.ts, second module)\<close>

text \<open>
  The model follows the secure adapter of \<^verbatim>\<open>src/adapter.ts\<close>: the class
  \<^verbatim>\<open>MessageAuthenticator\<close> and the functions that \<^verbatim>\<open>createWalletAdapter\<close>
  closes over. Conventions of the embedding:

  \<^item> An \<^verbatim>\<open>async\<close> function runs without interruption between two \<^verbatim>\<open>await\<close>s, and
    other handlers may run while it waits. \<^verbatim>\<open>verifyIncomingMessage\<close> reads the nonce
    ledger before its \<^verbatim>\<open>await\<close> and writes it after, so it is modelled in two steps,
    one on each side of the \<^verbatim>\<open>await\<close>, which a caller may interleave with the steps
    of another verification. \<open>handleSecureMessage\<close> and \<open>deliver\<close> describe
    invocations that do not overlap.
  \<^item> \<^verbatim>\<open>Date.now()\<close> is the argument \<open>now\<close> (milliseconds, an integer).
  \<^item> Mutation is state passing; \<^verbatim>\<open>postMessage\<close>, the host callback and the call of
    the dispatcher are recorded, in order, in a list of effects.
  \<^item> A thrown exception is the \<open>Inl\<close> branch of a sum.
  \<^item> A JavaScript string is the list of the bytes of its UTF-8 encoding; a JavaScript
    number is a safe integer, of magnitude below \<open>2 ^ 53\<close> (timestamps are
    milliseconds; fractions, NaN, the infinities and larger magnitudes are not
    modelled).
  \<^item> Fields of inbound messages have the types the interfaces declare when they are
    present; a field may be absent.
\<close>

subsection \<open>JavaScript values\<close>

datatype jsval =
    JUndefined
  | JNull
  | JBool bool
  | JNum int
  | JStr string
  | JBigInt int
  | JArr "jsval list"
  | JObj "(string \<times> jsval) list"

text \<open>\<^verbatim>\<open>!!v\<close>: the truthiness of a value.\<close>

fun truthy :: "jsval \<Rightarrow> bool" where
  "truthy JUndefined = False"
| "truthy JNull = False"
| "truthy (JBool b) = b"
| "truthy (JNum n) = (n \<noteq> 0)"
| "truthy (JStr s) = (s \<noteq> [])"
| "truthy (JBigInt n) = (n \<noteq> 0)"
| "truthy (JArr xs) = True"
| "truthy (JObj kvs) = True"

text \<open>
  Reading a property: \<^verbatim>\<open>v?.k\<close>, and \<^verbatim>\<open>v.k\<close> for a receiver that is neither
  \<^verbatim>\<open>null\<close> nor \<^verbatim>\<open>undefined\<close> (where the source reads with \<^verbatim>\<open>.\<close> a receiver that
  may be one of them, the model tests for it first). The list of a \<open>JObj\<close> holds the
  own properties in enumeration order, each key once.
\<close>

fun js_get :: "jsval \<Rightarrow> string \<Rightarrow> jsval" where
  "js_get (JObj kvs) k = (case map_of kvs k of Some v \<Rightarrow> v | None \<Rightarrow> JUndefined)"
| "js_get v k = JUndefined"

text \<open>An optional string field as a value: absent is \<^verbatim>\<open>undefined\<close>.\<close>

fun opt_str :: "string option \<Rightarrow> jsval" where
  "opt_str None = JUndefined"
| "opt_str (Some s) = JStr s"

subsection \<open>JSON.stringify\<close>

definition hex_digit :: "nat \<Rightarrow> char" where
  "hex_digit n = ''0123456789abcdef'' ! (n mod 16)"

fun show_nat :: "nat \<Rightarrow> string" where
  "show_nat n = (if n < 10 then [hex_digit n] else show_nat (n div 10) @ [hex_digit (n mod 10)])"

definition show_int :: "int \<Rightarrow> string" where
  "show_int i = (if i < 0 then CHR ''-'' # show_nat (nat (- i)) else show_nat (nat i))"

text \<open>QuoteJSONString, on UTF-8 bytes: bytes from 0x20 on pass unchanged.\<close>

definition json_escape :: "char \<Rightarrow> string" where
  "json_escape c =
     (if c = CHR 0x22 then [CHR 0x5C, CHR 0x22]
      else if c = CHR 0x5C then [CHR 0x5C, CHR 0x5C]
      else if c = CHR 0x08 then [CHR 0x5C, CHR ''b'']
      else if c = CHR 0x09 then [CHR 0x5C, CHR ''t'']
      else if c = CHR 0x0A then [CHR 0x5C, CHR ''n'']
      else if c = CHR 0x0C then [CHR 0x5C, CHR ''f'']
      else if c = CHR 0x0D then [CHR 0x5C, CHR ''r'']
      else if (of_char c :: nat) < 32
        then [CHR 0x5C, CHR ''u'', CHR ''0'', CHR ''0'',
              hex_digit (of_char c div 16), hex_digit (of_char c mod 16)]
      else [c])"

definition json_quote :: "string \<Rightarrow> string" where
  "json_quote s = [CHR 0x22] @ concat (map json_escape s) @ [CHR 0x22]"

fun join :: "string \<Rightarrow> string list \<Rightarrow> string" where
  "join sep [] = []"
| "join sep [x] = x"
| "join sep (x # y # ys) = x @ sep @ join sep (y # ys)"

text \<open>Serialization visits every value that is kept; a BigInt among them is a TypeError.\<close>

fun has_bigint :: "jsval \<Rightarrow> bool" where
  "has_bigint (JBigInt n) = True"
| "has_bigint (JArr xs) = (\<exists>x \<in> set xs. has_bigint x)"
| "has_bigint (JObj kvs) = (\<exists>kv \<in> set kvs. has_bigint (snd kv))"
| "has_bigint v = False"

text \<open>
  SerializeJSONProperty: \<open>None\<close> is \<^verbatim>\<open>undefined\<close>, which an object omits together
  with its key and an array prints as \<^verbatim>\<open>null\<close>. A number is printed by
  Number::toString, which gives all the decimal digits of an integer below
  \<open>10 ^ 21\<close> and so of every safe integer; \<open>show_int\<close> is that text. From
  \<open>10 ^ 21\<close> on JavaScript prints an exponent and \<open>show_int\<close> does not: such a
  \<open>JNum\<close> is outside the convention on numbers.
\<close>

fun json_text :: "jsval \<Rightarrow> string option" where
  "json_text JUndefined = None"
| "json_text JNull = Some ''null''"
| "json_text (JBool b) = Some (if b then ''true'' else ''false'')"
| "json_text (JNum n) = Some (show_int n)"
| "json_text (JStr s) = Some (json_quote s)"
| "json_text (JBigInt n) = None"
| "json_text (JArr xs) =
     Some (''['' @ join '','' (map (\<lambda>x. case json_text x of None \<Rightarrow> ''null'' | Some t \<Rightarrow> t) xs)
           @ '']'')"
| "json_text (JObj kvs) =
     Some (''{'' @ join '',''
             (concat (map (\<lambda>kv. case json_text (snd kv) of
                                   None \<Rightarrow> []
                                 | Some t \<Rightarrow> [json_quote (fst kv) @ '':'' @ t]) kvs))
           @ ''}'')"

text \<open>
  \<^verbatim>\<open>JSON.stringify(v)\<close> for an object \<open>v\<close> (both callers pass an object literal):
  \<open>None\<close> is the TypeError thrown on a BigInt.
\<close>

definition JSON_stringify :: "jsval \<Rightarrow> string option" where
  "JSON_stringify v = (if has_bigint v then None else json_text v)"

subsection \<open>HMAC with SHA-256 (crypto.subtle)\<close>

text \<open>
  \<^verbatim>\<open>computeHMAC\<close> imports the secret as a raw HMAC key with hash SHA-256 and signs
  the message with it. \<^verbatim>\<open>crypto.subtle\<close> belongs to the platform, not to the
  repository; it is modelled after its standards (FIPS 180-4 for the hash, FIPS 198-1
  for the HMAC construction), so that a signature is a value the model computes.
\<close>

type_synonym byte = "8 word"

text \<open>
  The constants of SHA-256 as the standard defines them: the first 32 bits of the
  fractional parts of the cube roots of the first 64 primes, and of the square roots
  of the first 8 primes for the initial hash value.
\<close>

definition is_prime :: "nat \<Rightarrow> bool" where
  "is_prime n = (2 \<le> n \<and> list_all (\<lambda>d. n mod d \<noteq> 0) [2..<n])"

definition first_primes :: "nat \<Rightarrow> nat list" where
  "first_primes k = take k (filter is_prime [2..<312])"

text \<open>The integer part of the \<open>k\<close>-th root of \<open>n\<close>, for \<open>n < 2 ^ (40 * k)\<close>, bit by bit.\<close>

definition iroot :: "nat \<Rightarrow> nat \<Rightarrow> nat" where
  "iroot k n = fold (\<lambda>b r. if (r + 2 ^ b) ^ k \<le> n then r + 2 ^ b else r) (rev [0..<40]) 0"

definition sha256_K :: "32 word list" where
  "sha256_K = map (\<lambda>p. of_nat (iroot 3 (p * 2 ^ 96))) (first_primes 64)"

definition sha256_H0 :: "32 word list" where
  "sha256_H0 = map (\<lambda>p. of_nat (iroot 2 (p * 2 ^ 64))) (first_primes 8)"

definition be32 :: "byte list \<Rightarrow> 32 word" where
  "be32 bs = foldl (\<lambda>w b. push_bit 8 w OR ucast b) 0 bs"

definition be_bytes :: "nat \<Rightarrow> 'a::len word \<Rightarrow> byte list" where
  "be_bytes k w = map (\<lambda>i. ucast (drop_bit (8 * (k - 1 - i)) w)) [0..<k]"

definition sha256_pad :: "byte list \<Rightarrow> byte list" where
  "sha256_pad m =
     m @ [0x80] @ replicate ((119 - length m mod 64) mod 64) 0
       @ be_bytes 8 (of_nat (8 * length m) :: 64 word)"

definition sha256_schedule :: "byte list \<Rightarrow> 32 word list" where
  "sha256_schedule block =
     fold (\<lambda>t w. w @ [(word_rotr 17 (w ! (t - 2)) XOR word_rotr 19 (w ! (t - 2))
                          XOR drop_bit 10 (w ! (t - 2)))
                        + w ! (t - 7)
                        + (word_rotr 7 (w ! (t - 15)) XOR word_rotr 18 (w ! (t - 15))
                          XOR drop_bit 3 (w ! (t - 15)))
                        + w ! (t - 16)])
          [16..<64]
          (map (\<lambda>i. be32 (take 4 (drop (4 * i) block))) [0..<16])"

fun sha256_round :: "32 word list \<Rightarrow> nat \<Rightarrow> 32 word list \<Rightarrow> 32 word list" where
  "sha256_round w t [a, b, c, d, e, f, g, h] =
     (let T1 = h + (word_rotr 6 e XOR word_rotr 11 e XOR word_rotr 25 e)
                 + ((e AND f) XOR (NOT e AND g)) + sha256_K ! t + w ! t;
          T2 = (word_rotr 2 a XOR word_rotr 13 a XOR word_rotr 22 a)
                 + ((a AND b) XOR (a AND c) XOR (b AND c))
      in [T1 + T2, a, b, c, d + T1, e, f, g])"
| "sha256_round w t s = s"

definition sha256_compress :: "32 word list \<Rightarrow> byte list \<Rightarrow> 32 word list" where
  "sha256_compress hs block =
     map2 (+) hs (fold (sha256_round (sha256_schedule block)) [0..<64] hs)"

definition sha256 :: "byte list \<Rightarrow> byte list" where
  "sha256 m =
     (let p = sha256_pad m
      in concat (map (be_bytes 4)
           (fold (\<lambda>i hs. sha256_compress hs (take 64 (drop (64 * i) p)))
                 [0..<length p div 64] sha256_H0)))"

text \<open>
  The key block of HMAC: a key longer than the 64-byte block of SHA-256 is hashed
  first, and the key is then filled up to the block with zero bytes.
\<close>

definition hmac_key_block :: "byte list \<Rightarrow> byte list" where
  "hmac_key_block key =
     (let k0 = (if length key > 64 then sha256 key else key)
      in k0 @ replicate (64 - length k0) 0)"

definition hmac_sha256 :: "byte list \<Rightarrow> byte list \<Rightarrow> byte list" where
  "hmac_sha256 key m =
     (let kb = hmac_key_block key
      in sha256 (map (\<lambda>b. b XOR 0x5c) kb @ sha256 (map (\<lambda>b. b XOR 0x36) kb @ m)))"

text \<open>\<^verbatim>\<open>new TextEncoder().encode(s)\<close>: the UTF-8 bytes of the string.\<close>

definition utf8_encode :: "string \<Rightarrow> byte list" where
  "utf8_encode s = map of_char s"

text \<open>\<^verbatim>\<open>byte.toString(16).padStart(2, '0')\<close>\<close>

definition hex_byte :: "byte \<Rightarrow> string" where
  "hex_byte b = [hex_digit (unat b div 16), hex_digit (unat b mod 16)]"

definition hmac_hex :: "string \<Rightarrow> string \<Rightarrow> string" where
  "hmac_hex message secret =
     concat (map hex_byte (hmac_sha256 (utf8_encode secret) (utf8_encode message)))"

text \<open>
  What a \<^verbatim>\<open>throw\<close> raises: \<^verbatim>\<open>new Error(message)\<close>, a TypeError or a DataError of the
  platform, or any other value (host code may throw what it likes).
\<close>

datatype js_error = Error string | TypeError | DataError | Thrown jsval

text \<open>
  \<^verbatim>\<open>computeHMAC(message, secret)\<close>. \<^verbatim>\<open>importKey\<close> rejects a key of length zero with a
  DataError; both callers test the secret for truthiness first.
\<close>

definition computeHMAC :: "string \<Rightarrow> string \<Rightarrow> js_error + string" where
  "computeHMAC message secret =
     (if utf8_encode secret = [] then Inl DataError else Inr (hmac_hex message secret))"

subsection \<open>Messages\<close>

text \<open>
  \<^verbatim>\<open>AdapterRequest\<close> and \<^verbatim>\<open>AuthenticatedMessage\<close>. The cast to
  \<^verbatim>\<open>AuthenticatedMessage\<close> in \<^verbatim>\<open>validateIncomingMessage\<close> follows a test of
  \<^verbatim>\<open>timestamp\<close>, \<^verbatim>\<open>nonce\<close> and \<^verbatim>\<open>signature\<close> only, so the fields of the request
  may be absent at run time (\<open>None\<close>; an absent \<^verbatim>\<open>params\<close> is \<open>JUndefined\<close>).
\<close>

record AdapterRequest =
  requestId :: "string option"
  action :: "string option"
  chain :: "string option"
  params :: jsval

record AuthenticatedMessage = AdapterRequest +
  timestamp :: int
  nonce :: string
  signature :: string

subsection \<open>MessageAuthenticator\<close>

record MessageAuthenticator =
  sharedSecret :: string
  usedNonces :: "string fset"
  maxMessageAge :: int

text \<open>The field initializers of the class.\<close>

definition new_MessageAuthenticator :: MessageAuthenticator where
  "new_MessageAuthenticator = \<lparr>sharedSecret = [], usedNonces = {||}, maxMessageAge = 300000\<rparr>"

definition setSharedSecret :: "string \<Rightarrow> MessageAuthenticator \<Rightarrow> MessageAuthenticator" where
  "setSharedSecret secret a = a\<lparr>sharedSecret := secret, usedNonces := {||}\<rparr>"

definition getSharedSecret :: "MessageAuthenticator \<Rightarrow> string" where
  "getSharedSecret a = sharedSecret a"

definition setMaxMessageAge :: "int \<Rightarrow> MessageAuthenticator \<Rightarrow> MessageAuthenticator" where
  "setMaxMessageAge ageInMs a = a\<lparr>maxMessageAge := ageInMs\<rparr>"

text \<open>The object literal \<^verbatim>\<open>messageWithoutSignature\<close> of \<^verbatim>\<open>verifyIncomingMessage\<close>.\<close>

definition messageWithoutSignature :: "AuthenticatedMessage \<Rightarrow> jsval" where
  "messageWithoutSignature message =
     JObj [(''requestId'', opt_str (requestId message)),
           (''action'', opt_str (action message)),
           (''chain'', opt_str (chain message)),
           (''params'', params message),
           (''timestamp'', JNum (timestamp message)),
           (''nonce'', JStr (nonce message))]"

text \<open>
  The value of \<^verbatim>\<open>expectedSignature\<close> in \<^verbatim>\<open>verifyIncomingMessage\<close>: the HMAC, under
  the secret, of \<^verbatim>\<open>JSON.stringify(messageWithoutSignature)\<close>. \<open>None\<close>: one of the
  two calls throws.
\<close>

definition expectedSignature :: "string \<Rightarrow> AuthenticatedMessage \<Rightarrow> string option" where
  "expectedSignature secret message =
     (case JSON_stringify (messageWithoutSignature message) of
        None \<Rightarrow> None
      | Some messageString \<Rightarrow>
          (case computeHMAC messageString secret of Inl e \<Rightarrow> None | Inr sig \<Rightarrow> Some sig))"

text \<open>
  \<^verbatim>\<open>verifyIncomingMessage\<close> up to its \<^verbatim>\<open>await\<close>. The checks of the secret, the age and
  the nonce and the call of \<^verbatim>\<open>JSON.stringify\<close> run without interruption and change
  nothing; then the function either has returned \<^verbatim>\<open>false\<close> (\<open>Rejected\<close>; a TypeError
  of \<^verbatim>\<open>JSON.stringify\<close> is caught by the \<^verbatim>\<open>catch\<close> block) or waits for
  \<^verbatim>\<open>computeHMAC(messageString, this.sharedSecret)\<close>, whose arguments are already
  evaluated (\<open>Awaiting\<close>, with what the promise will settle to).
\<close>

datatype verification = Rejected | Awaiting "js_error + string"

definition verifyIncomingMessage_begin ::
  "int \<Rightarrow> MessageAuthenticator \<Rightarrow> AuthenticatedMessage \<Rightarrow> verification" where
  "verifyIncomingMessage_begin now a message =
     (if sharedSecret a = [] then Rejected
      else if \<bar>now - timestamp message\<bar> > maxMessageAge a then Rejected
      else if nonce message |\<in>| usedNonces a then Rejected
      else (case JSON_stringify (messageWithoutSignature message) of
              None \<Rightarrow> Rejected
            | Some messageString \<Rightarrow> Awaiting (computeHMAC messageString (sharedSecret a))))"

text \<open>
  \<^verbatim>\<open>verifyIncomingMessage\<close> from its \<^verbatim>\<open>await\<close> on, in the authenticator as it is when
  the promise settles: a rejection goes to the \<^verbatim>\<open>catch\<close> block, a signature is
  compared and, when it matches, the nonce is added to the ledger. The ledger is not
  read again.
\<close>

definition verifyIncomingMessage_resume ::
  "verification \<Rightarrow> MessageAuthenticator \<Rightarrow> AuthenticatedMessage \<Rightarrow> bool \<times> MessageAuthenticator" where
  "verifyIncomingMessage_resume v a message =
     (case v of
        Rejected \<Rightarrow> (False, a)
      | Awaiting (Inl e) \<Rightarrow> (False, a)
      | Awaiting (Inr expected) \<Rightarrow>
          if expected \<noteq> signature message then (False, a)
          else (True, a\<lparr>usedNonces := finsert (nonce message) (usedNonces a)\<rparr>))"

text \<open>
  \<^verbatim>\<open>verifyIncomingMessage\<close> when nothing else touches the authenticator while it
  waits: the result and the authenticator afterwards.
\<close>

definition verifyIncomingMessage ::
  "int \<Rightarrow> MessageAuthenticator \<Rightarrow> AuthenticatedMessage \<Rightarrow> bool \<times> MessageAuthenticator" where
  "verifyIncomingMessage now a message =
     verifyIncomingMessage_resume (verifyIncomingMessage_begin now a message) a message"

text \<open>
  Two calls of \<^verbatim>\<open>verifyIncomingMessage\<close> in flight together: the second message
  arrives while the first call waits for its HMAC, so both calls run their checks on
  the same authenticator; then the first promise settles and the first call finishes,
  then the second. The result is what the two calls return and the authenticator
  afterwards.
\<close>

definition overlapping_verifications ::
  "int \<Rightarrow> int \<Rightarrow> MessageAuthenticator \<Rightarrow> AuthenticatedMessage \<Rightarrow> AuthenticatedMessage
     \<Rightarrow> bool \<times> bool \<times> MessageAuthenticator" where
  "overlapping_verifications now1 now2 a first_message second_message =
     (let v1 = verifyIncomingMessage_begin now1 a first_message;
          v2 = verifyIncomingMessage_begin now2 a second_message
      in case verifyIncomingMessage_resume v1 a first_message of
           (r1, a1) \<Rightarrow>
             (case verifyIncomingMessage_resume v2 a1 second_message of
                (r2, a2) \<Rightarrow> (r1, r2, a2)))"

text \<open>
  \<^verbatim>\<open>signResponse(response)\<close>: the signed object, or the exception thrown. The message
  of the Error starts with the four UTF-8 bytes of the lock emoji.
\<close>

definition no_secret_for_signing :: string where
  "no_secret_for_signing =
     [CHR 0xF0, CHR 0x9F, CHR 0x94, CHR 0x92] @ '' No shared secret configured for signing response''"

definition responseData :: "int \<Rightarrow> jsval \<Rightarrow> (string \<times> jsval) list" where
  "responseData now response =
     [(''requestId'', js_get response ''requestId''),
      (''success'', js_get response ''success''),
      (''data'', js_get response ''data''),
      (''error'', js_get response ''error''),
      (''timestamp'', JNum now)]"

definition signResponse :: "int \<Rightarrow> MessageAuthenticator \<Rightarrow> jsval \<Rightarrow> js_error + jsval" where
  "signResponse now a response =
     (if sharedSecret a = [] then Inl (Error no_secret_for_signing)
      else (case JSON_stringify (JObj (responseData now response)) of
              None \<Rightarrow> Inl TypeError
            | Some messageString \<Rightarrow>
                (case computeHMAC messageString (sharedSecret a) of
                   Inl e \<Rightarrow> Inl e
                 | Inr sig \<Rightarrow>
                     Inr (JObj (responseData now response @ [(''signature'', JStr sig)])))))"

definition cleanupOldNonces :: "MessageAuthenticator \<Rightarrow> MessageAuthenticator" where
  "cleanupOldNonces a = (if fcard (usedNonces a) > 1000 then a\<lparr>usedNonces := {||}\<rparr> else a)"

subsection \<open>The wallet provider and the window\<close>

text \<open>
  Inside \<^verbatim>\<open>processWalletRequest\<close> anything can be thrown: the provider rejects with a
  value of its choice, \<^verbatim>\<open>null\<close> and \<^verbatim>\<open>undefined\<close> included. The code reads the
  properties \<^verbatim>\<open>message\<close> and \<^verbatim>\<open>code\<close> of what it catches, so an Error object is the
  object with its \<^verbatim>\<open>message\<close>.
\<close>

definition new_Error :: "string \<Rightarrow> jsval" where
  "new_Error msg = JObj [(''message'', JStr msg)]"

text \<open>
  \<^verbatim>\<open>v.k\<close> throws a TypeError when \<open>v\<close> is \<^verbatim>\<open>null\<close> or \<^verbatim>\<open>undefined\<close>. The message of
  that TypeError is the engine's; this is the text of V8, and the code depends on no
  more than its being a non-empty string.
\<close>

definition nullish :: "jsval \<Rightarrow> bool" where
  "nullish v = (v = JUndefined \<or> v = JNull)"

definition cannot_read_property :: "jsval \<Rightarrow> string \<Rightarrow> jsval" where
  "cannot_read_property v k =
     new_Error (''Cannot read properties of '' @ (if v = JNull then ''null'' else ''undefined'')
                @ '' (reading '' @ [CHR 0x27] @ k @ [CHR 0x27] @ '')'')"

text \<open>
  The wallet provider \<^verbatim>\<open>window.ethereum\<close> is an external capability with a state of
  its own (type \<open>'w\<close>). \<open>request method params\<close> is
  \<^verbatim>\<open>ethereum.request({method, params})\<close>: it resolves (\<open>Inr\<close>) or rejects (\<open>Inl\<close>,
  with the reason);
  \<open>eth_accounts\<close> is the request of that name, whose answer is an array;
  \<open>ether_of_wei\<close> stands for \<^verbatim>\<open>parseInt(balance, 16) / Math.pow(10, 18)\<close>, a
  floating-point computation that is not modelled.
\<close>

record 'w provider =
  request :: "string \<Rightarrow> jsval \<Rightarrow> 'w \<Rightarrow> (jsval + jsval) \<times> 'w"
  eth_accounts :: "'w \<Rightarrow> (jsval + jsval list) \<times> 'w"
  ether_of_wei :: "jsval \<Rightarrow> jsval"

text \<open>
  The part of \<^verbatim>\<open>window\<close> the adapter touches: whether \<^verbatim>\<open>window.ethereum\<close> is there,
  the provider's state, the flag \<^verbatim>\<open>walletDisconnected\<close> (falsy until set), and the
  events dispatched so far (type and \<^verbatim>\<open>detail\<close>).
\<close>

record 'w window =
  ethereum_installed :: bool
  wallet :: 'w
  walletDisconnected :: bool
  dispatched :: "(string \<times> jsval) list"

definition call ::
  "'w provider \<Rightarrow> string \<Rightarrow> jsval \<Rightarrow> 'w window \<Rightarrow> (jsval + jsval) \<times> 'w window" where
  "call P method ps w = (case request P method ps (wallet w) of (r, s) \<Rightarrow> (r, w\<lparr>wallet := s\<rparr>))"

definition call_accounts ::
  "'w provider \<Rightarrow> 'w window \<Rightarrow> (jsval + jsval list) \<times> 'w window" where
  "call_accounts P w = (case eth_accounts P (wallet w) of (r, s) \<Rightarrow> (r, w\<lparr>wallet := s\<rparr>))"

definition dispatchEvent :: "string \<Rightarrow> jsval \<Rightarrow> 'w window \<Rightarrow> 'w window" where
  "dispatchEvent type detail w = w\<lparr>dispatched := dispatched w @ [(type, detail)]\<rparr>"

subsection \<open>processWalletRequest\<close>

text \<open>The cases of the \<^verbatim>\<open>switch\<close>, each returning its \<^verbatim>\<open>result\<close> or what it throws.\<close>

definition connect_wallet :: "'w provider \<Rightarrow> 'w window \<Rightarrow> (jsval + jsval) \<times> 'w window" where
  "connect_wallet P w =
     (case call P ''eth_requestAccounts'' JUndefined (w\<lparr>walletDisconnected := False\<rparr>) of
        (Inl e, w1) \<Rightarrow> (Inl e, w1)
      | (Inr result, w1) \<Rightarrow>
          (Inr result, dispatchEvent ''wallet-connect'' (JObj [(''accounts'', result)]) w1))"

definition disconnect_wallet :: "'w provider \<Rightarrow> 'w window \<Rightarrow> (jsval + jsval) \<times> 'w window" where
  "disconnect_wallet P w =
     (case call P ''eth_requestAccounts'' (JArr [JObj [(''eth_accounts'', JObj [])]]) w of
        (r, w1) \<Rightarrow>
          (Inr (JObj [(''status'', JStr ''disconnected'')]),
           dispatchEvent ''wallet-disconnect'' JNull (w1\<lparr>walletDisconnected := True\<rparr>)))"

definition get_accounts :: "'w provider \<Rightarrow> 'w window \<Rightarrow> (jsval + jsval) \<times> 'w window" where
  "get_accounts P w =
     (if walletDisconnected w then (Inr (JArr []), w)
      else (case call_accounts P w of
              (Inl e, w1) \<Rightarrow> (Inl e, w1)
            | (Inr accounts, w1) \<Rightarrow>
                (Inr (JArr accounts),
                 dispatchEvent ''wallet-connect'' (JObj [(''accounts'', JArr accounts)]) w1)))"

definition get_chain_id :: "'w provider \<Rightarrow> 'w window \<Rightarrow> (jsval + jsval) \<times> 'w window" where
  "get_chain_id P w = call P ''eth_chainId'' JUndefined w"

definition get_balance :: "'w provider \<Rightarrow> 'w window \<Rightarrow> (jsval + jsval) \<times> 'w window" where
  "get_balance P w =
     (case call_accounts P w of
        (Inl e, w1) \<Rightarrow> (Inl e, w1)
      | (Inr [], w1) \<Rightarrow> (Inl (new_Error ''No accounts connected''), w1)
      | (Inr (account # rest), w1) \<Rightarrow>
          (case call P ''eth_getBalance'' (JArr [account, JStr ''latest'']) w1 of
             (Inl e, w2) \<Rightarrow> (Inl e, w2)
           | (Inr balance, w2) \<Rightarrow> (Inr (ether_of_wei P balance), w2)))"

definition sign_message ::
  "'w provider \<Rightarrow> AdapterRequest \<Rightarrow> 'w window \<Rightarrow> (jsval + jsval) \<times> 'w window" where
  "sign_message P req w =
     (if \<not> truthy (js_get (params req) ''message'')
      then (Inl (new_Error ''Message is required for signing''), w)
      else (case call_accounts P w of
              (Inl e, w1) \<Rightarrow> (Inl e, w1)
            | (Inr [], w1) \<Rightarrow> (Inl (new_Error ''No accounts connected''), w1)
            | (Inr (account # rest), w1) \<Rightarrow>
                call P ''personal_sign'' (JArr [js_get (params req) ''message'', account]) w1))"

definition sign_transaction ::
  "'w provider \<Rightarrow> AdapterRequest \<Rightarrow> 'w window \<Rightarrow> (jsval + jsval) \<times> 'w window" where
  "sign_transaction P req w =
     (if \<not> truthy (js_get (params req) ''transaction'')
      then (Inl (new_Error ''Transaction is required for signing''), w)
      else call P ''eth_signTransaction'' (JArr [js_get (params req) ''transaction'']) w)"

definition broadcast_transaction ::
  "'w provider \<Rightarrow> AdapterRequest \<Rightarrow> 'w window \<Rightarrow> (jsval + jsval) \<times> 'w window" where
  "broadcast_transaction P req w =
     (if \<not> truthy (js_get (params req) ''transaction'')
      then (Inl (new_Error ''Transaction is required for broadcasting''), w)
      else call P ''eth_sendTransaction'' (JArr [js_get (params req) ''transaction'']) w)"

definition network_result :: "jsval \<Rightarrow> string \<Rightarrow> jsval" where
  "network_result chainId status = JObj [(''chainId'', chainId), (''status'', JStr status)]"

definition network_changed :: "jsval \<Rightarrow> 'w window \<Rightarrow> 'w window" where
  "network_changed chainId w =
     dispatchEvent ''wallet-network-changed'' (JObj [(''chainId'', chainId)]) w"

definition switch_network ::
  "'w provider \<Rightarrow> AdapterRequest \<Rightarrow> 'w window \<Rightarrow> (jsval + jsval) \<times> 'w window" where
  "switch_network P req w =
     (let chainId = js_get (params req) ''chainId'';
          networkConfig = js_get (params req) ''networkConfig''
      in if \<not> truthy chainId
         then (Inl (new_Error ''Chain ID is required for network switch''), w)
         else (case call P ''wallet_switchEthereumChain'' (JArr [JObj [(''chainId'', chainId)]]) w of
                 (Inr r, w1) \<Rightarrow> (Inr (network_result chainId ''switched''), network_changed chainId w1)
               | (Inl switchError, w1) \<Rightarrow>
                   if nullish switchError
                   then (Inl (cannot_read_property switchError ''code''), w1)
                   else if js_get switchError ''code'' = JNum 4902
                   then (if truthy networkConfig
                         then (case call P ''wallet_addEthereumChain'' (JArr [networkConfig]) w1 of
                                 (Inl e, w2) \<Rightarrow> (Inl e, w2)
                               | (Inr r, w2) \<Rightarrow>
                                   (Inr (network_result chainId ''added_and_switched''),
                                    network_changed chainId w2))
                         else (Inl (new_Error ''Network not found and no network config provided''),
                               w1))
                   else (Inl switchError, w1)))"

definition network_switched_event ::
  "AdapterRequest \<Rightarrow> 'w window \<Rightarrow> (jsval + jsval) \<times> 'w window" where
  "network_switched_event req w =
     (Inr (JObj [(''status'', JStr ''event_dispatched'')]),
      dispatchEvent ''NETWORK_SWITCHED_EVENT''
        (if truthy (params req) then params req else JObj []) w)"

text \<open>
  The body of the \<^verbatim>\<open>try\<close> block: \<^verbatim>\<open>getEthereumProvider()\<close>, then the \<^verbatim>\<open>switch\<close> on
  \<^verbatim>\<open>req.action\<close>.
\<close>

definition wallet_operation ::
  "'w provider \<Rightarrow> AdapterRequest \<Rightarrow> 'w window \<Rightarrow> (jsval + jsval) \<times> 'w window" where
  "wallet_operation P req w =
     (if \<not> ethereum_installed w
      then (Inl (new_Error ''MetaMask not installed. Please install MetaMask to use this feature.''), w)
      else if action req = Some ''CONNECT_WALLET'' then connect_wallet P w
      else if action req = Some ''DISCONNECT_WALLET'' then disconnect_wallet P w
      else if action req = Some ''GET_ACCOUNTS'' then get_accounts P w
      else if action req = Some ''GET_CHAIN_ID'' then get_chain_id P w
      else if action req = Some ''GET_BALANCE'' then get_balance P w
      else if action req = Some ''SIGN_MESSAGE'' then sign_message P req w
      else if action req = Some ''SIGN_TRANSACTION'' then sign_transaction P req w
      else if action req = Some ''BROADCAST_TRANSACTION'' then broadcast_transaction P req w
      else if action req = Some ''SWITCH_NETWORK'' then switch_network P req w
      else if action req = Some ''NETWORK_SWITCHED_EVENT'' then network_switched_event req w
      else (Inl (new_Error (''Unsupported action: ''
                   @ (case action req of None \<Rightarrow> ''undefined'' | Some a \<Rightarrow> a))), w))"

text \<open>
  \<^verbatim>\<open>processWalletRequest\<close>: the response object starts as
  \<^verbatim>\<open>{requestId, success: false, data: null, error: undefined}\<close>; a result sets
  \<^verbatim>\<open>success\<close> and \<^verbatim>\<open>data\<close>, a thrown value \<^verbatim>\<open>err\<close> sets \<^verbatim>\<open>error\<close> to
  \<^verbatim>\<open>err.message || 'Wallet operation failed'\<close>. That read is inside the \<^verbatim>\<open>catch\<close>
  block: when \<^verbatim>\<open>err\<close> is \<^verbatim>\<open>null\<close> or \<^verbatim>\<open>undefined\<close> it throws a TypeError, which
  leaves \<^verbatim>\<open>processWalletRequest\<close> (\<open>Inl\<close>) and no response is returned.
\<close>

definition processWalletRequest ::
  "'w provider \<Rightarrow> AdapterRequest \<Rightarrow> 'w window \<Rightarrow> (js_error + jsval) \<times> 'w window" where
  "processWalletRequest P req w =
     (case wallet_operation P req w of
        (Inr result, w1) \<Rightarrow>
          (Inr (JObj [(''requestId'', opt_str (requestId req)), (''success'', JBool True),
                      (''data'', result), (''error'', JUndefined)]), w1)
      | (Inl err, w1) \<Rightarrow>
          if nullish err then (Inl TypeError, w1)
          else
            (Inr (JObj [(''requestId'', opt_str (requestId req)), (''success'', JBool False),
                        (''data'', JNull),
                        (''error'', if truthy (js_get err ''message'') then js_get err ''message''
                                    else JStr ''Wallet operation failed'')]), w1))"

subsection \<open>The message handler of createWalletAdapter\<close>

text \<open>
  The data of an inbound event. \<open>NonObject\<close> is every value that fails
  \<^verbatim>\<open>!rawMessage || typeof rawMessage !== 'object'\<close>; an object is read through the
  fields the handler looks at, each present or absent.
\<close>

record RawMessage = AdapterRequest +
  widgetSecret :: "string option"
  raw_timestamp :: "int option"
  raw_nonce :: "string option"
  raw_signature :: "string option"

datatype event_data = NonObject | Object RawMessage

fun opt_num :: "int option \<Rightarrow> jsval" where
  "opt_num None = JUndefined"
| "opt_num (Some n) = JNum n"

text \<open>
  What the handler does besides changing state, in the order it happens: a message
  posted on \<^verbatim>\<open>channel.port1\<close>, a call of the host's \<^verbatim>\<open>onSharedSecretReceived\<close>, a call
  of \<^verbatim>\<open>processWalletRequest\<close> (the Action Dispatcher).
\<close>

datatype effect =
    PostMessage jsval
  | OnSharedSecretReceived string
  | ProcessWalletRequest AdapterRequest

record 'w adapter =
  authenticator :: MessageAuthenticator
  window :: "'w window"

text \<open>\<^verbatim>\<open>message as AuthenticatedMessage\<close>, once the three fields are known to be there.\<close>

definition as_AuthenticatedMessage ::
  "RawMessage \<Rightarrow> int \<Rightarrow> string \<Rightarrow> string \<Rightarrow> AuthenticatedMessage" where
  "as_AuthenticatedMessage message t n s =
     \<lparr>requestId = requestId message, action = action message, chain = chain message,
      params = params message, timestamp = t, nonce = n, signature = s\<rparr>"

definition validateIncomingMessage ::
  "int \<Rightarrow> MessageAuthenticator \<Rightarrow> RawMessage \<Rightarrow> bool \<times> MessageAuthenticator" where
  "validateIncomingMessage now a message =
     (case (raw_timestamp message, raw_nonce message, raw_signature message) of
        (Some t, Some n, Some s) \<Rightarrow>
          if \<not> truthy (JNum t) \<or> \<not> truthy (JStr n) \<or> \<not> truthy (JStr s) then (False, a)
          else verifyIncomingMessage now a (as_AuthenticatedMessage message t n s)
      | _ \<Rightarrow> (False, a))"

text \<open>
  \<^verbatim>\<open>stripAuthenticationFields\<close>: the request without \<^verbatim>\<open>timestamp\<close>, \<^verbatim>\<open>nonce\<close> and
  \<^verbatim>\<open>signature\<close> (of the fields that remain, the dispatcher reads these four).
\<close>

definition stripAuthenticationFields :: "RawMessage \<Rightarrow> AdapterRequest" where
  "stripAuthenticationFields message =
     \<lparr>requestId = requestId message, action = action message, chain = chain message,
      params = params message\<rparr>"

definition createSecureResponse ::
  "int \<Rightarrow> MessageAuthenticator \<Rightarrow> jsval \<Rightarrow> js_error + jsval" where
  "createSecureResponse now a response =
     (case signResponse now a response of Inl e \<Rightarrow> Inl e | Inr secure \<Rightarrow> Inr secure)"

text \<open>
  The last two statements of \<^verbatim>\<open>handleSecureMessage\<close>:
  \<^verbatim>\<open>const finalResponse = await createSecureResponse(response);
  channel.port1.postMessage(finalResponse);\<close>
\<close>

definition send_secure_response ::
  "int \<Rightarrow> MessageAuthenticator \<Rightarrow> jsval \<Rightarrow> (js_error + unit) \<times> effect list" where
  "send_secure_response now a response =
     (case createSecureResponse now a response of
        Inl e \<Rightarrow> (Inl e, [])
      | Inr finalResponse \<Rightarrow> (Inr (), [PostMessage finalResponse]))"

definition ackResponse :: "RawMessage \<Rightarrow> jsval" where
  "ackResponse rawMessage =
     JObj [(''requestId'', opt_str (requestId rawMessage)), (''success'', JBool True),
           (''data'', JObj [(''message'', JStr ''Shared secret received'')])]"

definition errorResponse :: "RawMessage \<Rightarrow> jsval" where
  "errorResponse rawMessage =
     JObj [(''requestId'', opt_str (requestId rawMessage)), (''success'', JBool False),
           (''error'', JStr (''SECURITY_ERROR: Shared secret not established. Widget must ''
              @ ''initialize secure communication first via EXCHANGE_SHARED_SECRET action.''))]"

text \<open>
  The guard of the exchange branch:
  \<^verbatim>\<open>rawMessage.action === 'EXCHANGE_SHARED_SECRET' && rawMessage.widgetSecret\<close>.
\<close>

definition is_secret_exchange :: "RawMessage \<Rightarrow> bool" where
  "is_secret_exchange rawMessage =
     (action rawMessage = Some ''EXCHANGE_SHARED_SECRET'' \<and> truthy (opt_str (widgetSecret rawMessage)))"

text \<open>
  The option \<^verbatim>\<open>onSharedSecretReceived\<close>: absent (\<open>None\<close>), or a function of the host
  that, called with the secret, returns or throws. What else the host does in it is
  not part of the adapter.
\<close>

type_synonym host_callback = "(string \<Rightarrow> js_error + unit) option"

text \<open>
  The three statements of the exchange branch after the secret is installed:
  \<^verbatim>\<open>if (onSharedSecretReceived) { onSharedSecretReceived(widgetSecret); }\<close>, then
  \<^verbatim>\<open>channel.port1.postMessage(ackResponse); return;\<close>. The call is not inside a
  \<^verbatim>\<open>try\<close>: what the callback throws leaves the handler before the acknowledgment is
  posted.
\<close>

definition notify_and_acknowledge ::
  "host_callback \<Rightarrow> string \<Rightarrow> jsval \<Rightarrow> (js_error + unit) \<times> effect list" where
  "notify_and_acknowledge callback secret ack =
     (case callback of
        None \<Rightarrow> (Inr (), [PostMessage ack])
      | Some f \<Rightarrow>
          (case f secret of
             Inl e \<Rightarrow> (Inl e, [OnSharedSecretReceived secret])
           | Inr u \<Rightarrow> (Inr (), [OnSharedSecretReceived secret, PostMessage ack])))"

text \<open>
  \<^verbatim>\<open>handleSecureMessage\<close>, for an invocation that no other one overlaps. \<open>callback\<close>
  is the option \<^verbatim>\<open>onSharedSecretReceived\<close>; \<open>now\<close> is the clock when the message is
  verified and \<open>later\<close> the clock when the response is signed. The result is the
  exception that escapes, if any, the state afterwards and the effects. In the
  exchange branch the guard has found the secret, so its case \<open>None\<close> is never taken.
  An exception that leaves \<^verbatim>\<open>processWalletRequest\<close> leaves the handler too.
\<close>

definition handleSecureMessage ::
  "'w provider \<Rightarrow> host_callback \<Rightarrow> int \<Rightarrow> int \<Rightarrow> event_data \<Rightarrow> 'w adapter
     \<Rightarrow> (js_error + unit) \<times> 'w adapter \<times> effect list" where
  "handleSecureMessage P callback now later event st =
     (case event of
        NonObject \<Rightarrow> (Inr (), st, [])
      | Object rawMessage \<Rightarrow>
          if \<not> truthy (opt_str (requestId rawMessage)) then (Inr (), st, [])
          else if is_secret_exchange rawMessage then
            (case widgetSecret rawMessage of
               None \<Rightarrow> (Inr (), st, [])
             | Some secret \<Rightarrow>
                 (case notify_and_acknowledge callback secret (ackResponse rawMessage) of
                    (r, effects) \<Rightarrow>
                      (r, st\<lparr>authenticator := setSharedSecret secret (authenticator st)\<rparr>,
                       effects)))
          else if \<not> truthy (JStr (getSharedSecret (authenticator st))) then
            (Inr (), st, [PostMessage (errorResponse rawMessage)])
          else
            (case validateIncomingMessage now (authenticator st) rawMessage of
               (False, a1) \<Rightarrow> (Inr (), st\<lparr>authenticator := a1\<rparr>, [])
             | (True, a1) \<Rightarrow>
                 (let validatedMessage = stripAuthenticationFields rawMessage in
                  case processWalletRequest P validatedMessage (window st) of
                    (Inl e, w1) \<Rightarrow>
                      (Inl e, \<lparr>authenticator = a1, window = w1\<rparr>,
                       [ProcessWalletRequest validatedMessage])
                  | (Inr response, w1) \<Rightarrow>
                      (case send_secure_response later a1 response of
                         (r, posted) \<Rightarrow>
                           (r, \<lparr>authenticator = a1, window = w1\<rparr>,
                            ProcessWalletRequest validatedMessage # posted)))))"

text \<open>
  \<^verbatim>\<open>channel.port1.onmessage\<close>: an exception of the handler is logged and goes no
  further.
\<close>

definition onmessage ::
  "'w provider \<Rightarrow> host_callback \<Rightarrow> int \<Rightarrow> int \<Rightarrow> event_data \<Rightarrow> 'w adapter
     \<Rightarrow> 'w adapter \<times> effect list" where
  "onmessage P callback now later event st =
     (case handleSecureMessage P callback now later event st of (r, st1, effects) \<Rightarrow> (st1, effects))"

text \<open>
  The configuration \<^verbatim>\<open>createWalletAdapter(options)\<close> applies to the process-wide
  authenticator before it installs the handler.
\<close>

record AdapterOptions =
  option_sharedSecret :: "string option"
  onSharedSecretReceived :: host_callback
  option_maxMessageAge :: "int option"
  debugMode :: bool

definition createWalletAdapter :: "AdapterOptions \<Rightarrow> MessageAuthenticator \<Rightarrow> MessageAuthenticator" where
  "createWalletAdapter options dappAuthenticator =
     (let maxAge = (case option_maxMessageAge options of None \<Rightarrow> 300000 | Some n \<Rightarrow> n);
          a1 = (if maxAge \<noteq> 300000 then setMaxMessageAge maxAge dappAuthenticator
                else dappAuthenticator)
      in if truthy (opt_str (option_sharedSecret options))
         then (case option_sharedSecret options of
                 None \<Rightarrow> a1
               | Some secret \<Rightarrow> setSharedSecret secret a1)
         else a1)"

subsection \<open>A requestor that knows the secret\<close>

text \<open>
  The requestor's code is not part of the repository. A message is signed correctly
  under a secret when its \<^verbatim>\<open>signature\<close> is the value verification recomputes;
  \<open>signed_with\<close> builds such a message, and \<open>demo_request\<close> is a concrete one to
  run the model on.
\<close>

definition signed_with :: "string \<Rightarrow> AuthenticatedMessage \<Rightarrow> AuthenticatedMessage" where
  "signed_with secret message =
     message\<lparr>signature := (case expectedSignature secret message of None \<Rightarrow> [] | Some sig \<Rightarrow> sig)\<rparr>"

definition demo_request :: AuthenticatedMessage where
  "demo_request =
     \<lparr>requestId = Some ''1'', action = Some ''GET_CHAIN_ID'', chain = Some ''ethereum'',
      params = JUndefined, timestamp = 1700000000000, nonce = ''n1'', signature = []\<rparr>"

text \<open>A request whose \<^verbatim>\<open>signature\<close> is not the HMAC under any secret: it is too short.\<close>

definition forged_request :: AuthenticatedMessage where
  "forged_request = demo_request\<lparr>signature := ''00''\<rparr>"

text \<open>The object a requestor posts for an authenticated message.\<close>

definition raw_message :: "AuthenticatedMessage \<Rightarrow> RawMessage" where
  "raw_message m =
     \<lparr>requestId = requestId m, action = action m, chain = chain m, params = params m,
      widgetSecret = None, raw_timestamp = Some (timestamp m), raw_nonce = Some (nonce m),
      raw_signature = Some (signature m)\<rparr>"

text \<open>The object of a secret exchange, and of a request without authentication fields.\<close>

definition exchange_message :: "string option \<Rightarrow> string option \<Rightarrow> RawMessage" where
  "exchange_message rid secret =
     \<lparr>requestId = rid, action = Some ''EXCHANGE_SHARED_SECRET'', chain = None,
      params = JUndefined, widgetSecret = secret, raw_timestamp = None, raw_nonce = None,
      raw_signature = None\<rparr>"

definition plain_request :: "string \<Rightarrow> string \<Rightarrow> RawMessage" where
  "plain_request rid act =
     \<lparr>requestId = Some rid, action = Some act, chain = Some ''ethereum'',
      params = JUndefined, widgetSecret = None, raw_timestamp = None, raw_nonce = None,
      raw_signature = None\<rparr>"

text \<open>
  A provider to run the model on: it answers \<^verbatim>\<open>eth_chainId\<close>, rejects every other
  method and has no account connected.
\<close>

definition demo_provider :: "unit provider" where
  "demo_provider =
     \<lparr>request = (\<lambda>method ps s.
          (if method = ''eth_chainId'' then Inr (JStr ''0x1'')
           else Inl (JObj [(''message'', JStr ''The requested method is not supported''),
                           (''code'', JNum 4200)]), s)),
      eth_accounts = (\<lambda>s. (Inr [], s)),
      ether_of_wei = (\<lambda>balance. balance)\<rparr>"

definition demo_window :: "unit window" where
  "demo_window =
     \<lparr>ethereum_installed = True, wallet = (), walletDisconnected = False, dispatched = []\<rparr>"

definition fresh_adapter :: "unit adapter" where
  "fresh_adapter = \<lparr>authenticator = new_MessageAuthenticator, window = demo_window\<rparr>"

definition keyed_adapter :: "string \<Rightarrow> unit adapter" where
  "keyed_adapter secret =
     \<lparr>authenticator = setSharedSecret secret new_MessageAuthenticator, window = demo_window\<rparr>"

text \<open>The adapter after \<open>demo_request\<close> was accepted under the secret \<^verbatim>\<open>"abc"\<close>.\<close>

definition answered_adapter :: "unit adapter" where
  "answered_adapter =
     \<lparr>authenticator = \<lparr>sharedSecret = ''abc'', usedNonces = {|''n1''|}, maxMessageAge = 300000\<rparr>,
      window = demo_window\<rparr>"

text \<open>
  Host callbacks to run the model on: one that returns, and one that throws an
  Error.
\<close>

definition returning_callback :: host_callback where
  "returning_callback = Some (\<lambda>secret. Inr ())"

definition throwing_callback :: host_callback where
  "throwing_callback = Some (\<lambda>secret. Inl (Error ''host callback failed''))"

text \<open>
  A provider that rejects every request with \<^verbatim>\<open>undefined\<close> (a promise rejected
  without a reason), and has no account connected.
\<close>

definition rejecting_provider :: "unit provider" where
  "rejecting_provider =
     \<lparr>request = (\<lambda>method ps s. (Inl JUndefined, s)),
      eth_accounts = (\<lambda>s. (Inr [], s)),
      ether_of_wei = (\<lambda>balance. balance)\<rparr>"

text \<open>The messages posted among the effects of a handler run.\<close>

definition posted_messages :: "effect list \<Rightarrow> jsval list" where
  "posted_messages effects = concat (map (\<lambda>e. case e of PostMessage r \<Rightarrow> [r] | _ \<Rightarrow> []) effects)"

text \<open>
  A field of a response is present when reading it gives a value other than
  \<^verbatim>\<open>undefined\<close>: a key whose value is \<^verbatim>\<open>undefined\<close> is left out by
  \<^verbatim>\<open>JSON.stringify\<close> and counts as absent; \<^verbatim>\<open>null\<close> is a value.
\<close>

definition field_present :: "jsval \<Rightarrow> string \<Rightarrow> bool" where
  "field_present obj k = (js_get obj k \<noteq> JUndefined)"

text \<open>A response envelope as \<^verbatim>\<open>processWalletRequest\<close> builds it on success.\<close>

definition demo_response :: jsval where
  "demo_response =
     JObj [(''requestId'', JStr ''1''), (''success'', JBool True), (''data'', JStr ''0x1''),
           (''error'', JUndefined)]"

subsection \<open>Control operations and runs\<close>

text \<open>
  \<^verbatim>\<open>cleanupNonces\<close> of the object \<^verbatim>\<open>createWalletAdapter\<close> returns: the only caller of
  \<^verbatim>\<open>cleanupOldNonces\<close>.
\<close>

definition cleanupNonces :: "'w adapter \<Rightarrow> 'w adapter" where
  "cleanupNonces st = st\<lparr>authenticator := cleanupOldNonces (authenticator st)\<rparr>"

text \<open>Messages arriving one after the other, each handled to completion at clock \<open>now\<close>.\<close>

fun deliver :: "'w provider \<Rightarrow> host_callback \<Rightarrow> int \<Rightarrow> event_data list \<Rightarrow> 'w adapter \<Rightarrow> 'w adapter" where
  "deliver P callback now [] st = st"
| "deliver P callback now (event # events) st =
     deliver P callback now events (fst (onmessage P callback now now event st))"

text \<open>
  Sustained traffic: correctly signed requests under the secret \<^verbatim>\<open>"abc"\<close>, the
  \<open>i\<close>-th with the nonce \<^verbatim>\<open>"n"\<close> repeated \<open>i + 1\<close> times.
\<close>

definition numbered_request :: "nat \<Rightarrow> AuthenticatedMessage" where
  "numbered_request i = signed_with ''abc'' (demo_request\<lparr>nonce := replicate (Suc i) CHR ''n''\<rparr>)"

definition sustained_traffic :: "nat \<Rightarrow> event_data list" where
  "sustained_traffic k = map (\<lambda>i. Object (raw_message (numbered_request i))) [0..<k]"

text \<open>A correctly signed request for an action the dispatcher does not know.\<close>

definition unsupported_request :: AuthenticatedMessage where
  "unsupported_request = signed_with ''abc'' (demo_request\<lparr>action := Some ''TRANSFER_FUNDS''\<rparr>)"

section \<open>Properties\<close>

subsection \<open>Helper facts\<close>

lemma verifyIncomingMessage_unfold:
  "verifyIncomingMessage now a message =
     (if sharedSecret a = [] then (False, a)
      else if \<bar>now - timestamp message\<bar> > maxMessageAge a then (False, a)
      else if nonce message |\<in>| usedNonces a then (False, a)
      else (case expectedSignature (sharedSecret a) message of
              None \<Rightarrow> (False, a)
            | Some sig \<Rightarrow>
                if sig \<noteq> signature message then (False, a)
                else (True, a\<lparr>usedNonces := finsert (nonce message) (usedNonces a)\<rparr>)))"
  by (simp add: verifyIncomingMessage_def verifyIncomingMessage_begin_def
      verifyIncomingMessage_resume_def expectedSignature_def split: option.splits sum.splits)

lemma computeHMAC_installed:
  "secret \<noteq> [] \<Longrightarrow> computeHMAC message secret = Inr (hmac_hex message secret)"
  by (simp add: computeHMAC_def utf8_encode_def)

lemma messageWithoutSignature_signature:
  "messageWithoutSignature (m\<lparr>signature := s\<rparr>) = messageWithoutSignature m"
  by (simp add: messageWithoutSignature_def)

lemma expectedSignature_signature:
  "expectedSignature secret (m\<lparr>signature := s\<rparr>) = expectedSignature secret m"
  by (simp add: expectedSignature_def messageWithoutSignature_signature)

lemma demo_request_text: "\<exists>s. JSON_stringify (messageWithoutSignature demo_request) = Some s"
  by (simp add: JSON_stringify_def messageWithoutSignature_def demo_request_def)

lemma demo_request_expected:
  "secret \<noteq> [] \<Longrightarrow> \<exists>sig. expectedSignature secret demo_request = Some sig"
  using demo_request_text by (auto simp: expectedSignature_def computeHMAC_installed)

lemma signed_with_correct:
  "expectedSignature secret m = Some sig \<Longrightarrow>
   expectedSignature secret (signed_with secret m) = Some (signature (signed_with secret m))"
  by (simp add: signed_with_def expectedSignature_signature)

lemma signed_with_fields:
  "timestamp (signed_with secret m) = timestamp m"
  "nonce (signed_with secret m) = nonce m"
  "requestId (signed_with secret m) = requestId m"
  "action (signed_with secret m) = action m"
  "params (signed_with secret m) = params m"
  by (simp_all add: signed_with_def)

lemma small_primes: "filter is_prime [2..<20] = [2, 3, 5, 7, 11, 13, 17, 19]"
  by code_simp

lemma first_primes_8: "first_primes 8 = [2, 3, 5, 7, 11, 13, 17, 19]"
proof -
  have "[2..<312] = [2..<20] @ [20..<312]"
    using upt_add_eq_append [of 2 20 292] by simp
  then show ?thesis
    by (simp only: first_primes_def filter_append small_primes) simp
qed

lemma sha256_H0_length: "length sha256_H0 = 8"
  by (simp add: sha256_H0_def first_primes_8)

lemma sha256_round_length: "length s = 8 \<Longrightarrow> length (sha256_round w t s) = 8"
proof -
  assume "length s = 8"
  then obtain a b c d e f g h where "s = [a, b, c, d, e, f, g, h]"
    by (auto simp: length_Suc_conv eval_nat_numeral)
  then show ?thesis by (simp add: Let_def)
qed

lemma sha256_rounds_length: "length s = 8 \<Longrightarrow> length (fold (sha256_round w) ts s) = 8"
  by (induction ts arbitrary: s) (simp_all add: sha256_round_length)

lemma sha256_compress_length: "length hs = 8 \<Longrightarrow> length (sha256_compress hs block) = 8"
  by (simp add: sha256_compress_def sha256_rounds_length)

lemma sha256_blocks_length:
  "length hs = 8 \<Longrightarrow> length (fold (\<lambda>i hs. sha256_compress hs (f i)) is hs) = 8"
  by (induction "is" arbitrary: hs) (simp_all add: sha256_compress_length)

lemma sha256_length: "length (sha256 m) = 32"
proof -
  have "length (concat (map (be_bytes 4) (ws :: 32 word list))) = 4 * length ws" for ws
    by (induction ws) (simp_all add: be_bytes_def)
  then show ?thesis
    by (simp add: sha256_def Let_def sha256_blocks_length sha256_H0_length)
qed

lemma hmac_hex_length: "length (hmac_hex message secret) = 64"
proof -
  have "length (concat (map hex_byte bs)) = 2 * length bs" for bs
    by (induction bs) (simp_all add: hex_byte_def)
  then show ?thesis
    by (simp add: hmac_hex_def hmac_sha256_def Let_def sha256_length)
qed

lemma hmac_hex_nonempty: "hmac_hex message secret \<noteq> []"
  using hmac_hex_length [of message secret] by auto

text \<open>HMAC fills a short key up with zero bytes, so a trailing NUL does not change it.\<close>

lemma hmac_key_block_zero:
  assumes "length key < 64"
  shows "hmac_key_block (key @ [0]) = hmac_key_block key"
proof -
  have "64 - length key = Suc (63 - length key)"
    using assms by simp
  then show ?thesis
    using assms by (simp add: hmac_key_block_def)
qed

lemma hmac_hex_zero:
  assumes "length secret < 64"
  shows "hmac_hex message (secret @ [CHR 0x00]) = hmac_hex message secret"
proof -
  have "utf8_encode (secret @ [CHR 0x00]) = utf8_encode secret @ [0]"
    by (simp add: utf8_encode_def)
  then show ?thesis
    using assms hmac_key_block_zero [of "utf8_encode secret"]
    by (simp add: hmac_hex_def hmac_sha256_def utf8_encode_def)
qed

lemma JSON_stringify_object:
  "\<not> has_bigint (JObj kvs) \<Longrightarrow> \<exists>s. JSON_stringify (JObj kvs) = Some s"
  by (simp add: JSON_stringify_def)

lemma expectedSignature_installed:
  "secret \<noteq> [] \<Longrightarrow> \<not> has_bigint (params m) \<Longrightarrow>
   \<exists>s. JSON_stringify (messageWithoutSignature m) = Some s
       \<and> expectedSignature secret m = Some (hmac_hex s secret)"
  by (cases "requestId m"; cases "action m"; cases "chain m")
     (simp_all add: expectedSignature_def JSON_stringify_def messageWithoutSignature_def
        computeHMAC_installed)

lemma verifyIncomingMessage_rejected:
  "fst (verifyIncomingMessage now a m) = False \<Longrightarrow> verifyIncomingMessage now a m = (False, a)"
  by (auto simp: verifyIncomingMessage_unfold split: if_splits option.splits)

lemma forged_request_fields:
  "signature forged_request = ''00''"
  "expectedSignature secret forged_request = expectedSignature secret demo_request"
  by (simp_all add: forged_request_def expectedSignature_signature)

lemma verifyIncomingMessage_stale:
  "\<bar>now - timestamp m\<bar> > maxMessageAge a \<Longrightarrow> verifyIncomingMessage now a m = (False, a)"
  by (simp add: verifyIncomingMessage_unfold)

lemma verifyIncomingMessage_replay:
  "nonce m |\<in>| usedNonces a \<Longrightarrow> verifyIncomingMessage now a m = (False, a)"
  by (simp add: verifyIncomingMessage_unfold)

lemma verifyIncomingMessage_accepts:
  "sharedSecret a \<noteq> [] \<Longrightarrow> \<bar>now - timestamp m\<bar> \<le> maxMessageAge a \<Longrightarrow>
   nonce m |\<notin>| usedNonces a \<Longrightarrow> expectedSignature (sharedSecret a) m = Some (signature m) \<Longrightarrow>
   verifyIncomingMessage now a m = (True, a\<lparr>usedNonces := finsert (nonce m) (usedNonces a)\<rparr>)"
  by (simp add: verifyIncomingMessage_unfold)

lemma verifyIncomingMessage_bad_signature:
  "expectedSignature (sharedSecret a) m \<noteq> Some (signature m) \<Longrightarrow>
   verifyIncomingMessage now a m = (False, a)"
  by (auto simp: verifyIncomingMessage_unfold split: option.splits)

lemma keyed_adapter_fields:
  "sharedSecret (authenticator (keyed_adapter secret)) = secret"
  "usedNonces (authenticator (keyed_adapter secret)) = {||}"
  "maxMessageAge (authenticator (keyed_adapter secret)) = 300000"
  "window (keyed_adapter secret) = demo_window"
  by (simp_all add: keyed_adapter_def setSharedSecret_def new_MessageAuthenticator_def)

lemma demo_request_fields:
  "timestamp (signed_with secret demo_request) = 1700000000000"
  "nonce (signed_with secret demo_request) = ''n1''"
  "requestId (signed_with secret demo_request) = Some ''1''"
  "action (signed_with secret demo_request) = Some ''GET_CHAIN_ID''"
  "params (signed_with secret demo_request) = JUndefined"
  by (simp_all add: signed_with_def demo_request_def)

lemma as_AuthenticatedMessage_raw:
  "as_AuthenticatedMessage (raw_message m) (timestamp m) (nonce m) (signature m) = m"
  by (simp add: as_AuthenticatedMessage_def raw_message_def)

lemma raw_message_fields:
  "requestId (raw_message m) = requestId m"
  "action (raw_message m) = action m"
  "params (raw_message m) = params m"
  "chain (raw_message m) = chain m"
  "widgetSecret (raw_message m) = None"
  "raw_timestamp (raw_message m) = Some (timestamp m)"
  "raw_nonce (raw_message m) = Some (nonce m)"
  "raw_signature (raw_message m) = Some (signature m)"
  by (simp_all add: raw_message_def)

lemma raw_message_not_exchange: "\<not> is_secret_exchange (raw_message m)"
  by (simp add: is_secret_exchange_def raw_message_def)

lemma signed_with_installed:
  "secret \<noteq> [] \<Longrightarrow> \<not> has_bigint (params m) \<Longrightarrow>
   \<exists>s. JSON_stringify (messageWithoutSignature m) = Some s
       \<and> expectedSignature secret m = Some (hmac_hex s secret)
       \<and> signature (signed_with secret m) = hmac_hex s secret
       \<and> expectedSignature secret (signed_with secret m) = Some (signature (signed_with secret m))"
  using expectedSignature_installed [of secret m]
  by (auto simp: signed_with_def expectedSignature_signature)

lemma demo_request_plain: "\<not> has_bigint (params demo_request)"
  by (simp add: demo_request_def)

lemma validateIncomingMessage_raw:
  "timestamp m \<noteq> 0 \<Longrightarrow> nonce m \<noteq> [] \<Longrightarrow> signature m \<noteq> [] \<Longrightarrow>
   validateIncomingMessage now a (raw_message m) = verifyIncomingMessage now a m"
  by (simp add: validateIncomingMessage_def raw_message_fields as_AuthenticatedMessage_raw)

lemma handler_accepts:
  assumes "truthy (opt_str (requestId m))" and "\<not> is_secret_exchange m"
      and "sharedSecret (authenticator st) \<noteq> []"
      and "validateIncomingMessage now (authenticator st) m = (True, a1)"
      and "processWalletRequest P (stripAuthenticationFields m) (window st)
             = (Inr response, w1)"
  shows "handleSecureMessage P callback now later (Object m) st
           = (fst (send_secure_response later a1 response),
              \<lparr>authenticator = a1, window = w1\<rparr>,
              ProcessWalletRequest (stripAuthenticationFields m)
                # snd (send_secure_response later a1 response))"
  using assms
  by (cases "send_secure_response later a1 response")
     (simp add: handleSecureMessage_def getSharedSecret_def)

lemma handler_dispatcher_throws:
  assumes "truthy (opt_str (requestId m))" and "\<not> is_secret_exchange m"
      and "sharedSecret (authenticator st) \<noteq> []"
      and "validateIncomingMessage now (authenticator st) m = (True, a1)"
      and "processWalletRequest P (stripAuthenticationFields m) (window st) = (Inl e, w1)"
  shows "handleSecureMessage P callback now later (Object m) st
           = (Inl e, \<lparr>authenticator = a1, window = w1\<rparr>,
              [ProcessWalletRequest (stripAuthenticationFields m)])"
  using assms by (simp add: handleSecureMessage_def getSharedSecret_def)

lemma handler_authenticator:
  assumes "truthy (opt_str (requestId m))" and "\<not> is_secret_exchange m"
      and "sharedSecret (authenticator st) \<noteq> []"
  shows "authenticator (fst (onmessage P callback now later (Object m) st))
           = snd (validateIncomingMessage now (authenticator st) m)"
proof (cases "validateIncomingMessage now (authenticator st) m")
  case (Pair ok a1)
  obtain outcome w1 where
    p: "processWalletRequest P (stripAuthenticationFields m) (window st) = (outcome, w1)"
    by (cases "processWalletRequest P (stripAuthenticationFields m) (window st)")
  show ?thesis
  proof (cases ok)
    case True
    show ?thesis
    proof (cases outcome)
      case (Inl e)
      then show ?thesis
        using handler_dispatcher_throws [OF assms, of now a1 P e w1 callback later] p Pair True
        by (simp add: onmessage_def)
    next
      case (Inr response)
      then show ?thesis
        using handler_accepts [OF assms, of now a1 P response w1 callback later] p Pair True
        by (simp add: onmessage_def)
    qed
  next
    case False
    then show ?thesis
      using assms Pair
      by (simp add: onmessage_def handleSecureMessage_def getSharedSecret_def)
  qed
qed

lemma signResponse_installed:
  assumes "sharedSecret a \<noteq> []" and "\<not> has_bigint (JObj (responseData now response))"
  shows "\<exists>s. signResponse now a response
               = Inr (JObj (responseData now response
                            @ [(''signature'', JStr (hmac_hex s (sharedSecret a)))]))"
proof -
  obtain s where "JSON_stringify (JObj (responseData now response)) = Some s"
    using JSON_stringify_object [OF assms(2)] by blast
  then show ?thesis
    using assms(1) by (intro exI [of _ s]) (simp add: signResponse_def computeHMAC_installed)
qed

lemma numbered_request_fields:
  "timestamp (numbered_request i) = 1700000000000"
  "nonce (numbered_request i) = replicate (Suc i) CHR ''n''"
  "requestId (numbered_request i) = Some ''1''"
  "action (numbered_request i) = Some ''GET_CHAIN_ID''"
  by (simp_all add: numbered_request_def signed_with_def demo_request_def)

lemma numbered_request_signed:
  "expectedSignature ''abc'' (numbered_request i) = Some (signature (numbered_request i))"
  "signature (numbered_request i) \<noteq> []"
proof -
  let ?m = "demo_request\<lparr>nonce := replicate (Suc i) CHR ''n''\<rparr>"
  have "\<not> has_bigint (params ?m)" by (simp add: demo_request_def)
  then obtain s where s: "signature (signed_with ''abc'' ?m) = hmac_hex s ''abc''"
    "expectedSignature ''abc'' (signed_with ''abc'' ?m) = Some (signature (signed_with ''abc'' ?m))"
    using signed_with_installed [of "''abc''" ?m] by auto
  show "expectedSignature ''abc'' (numbered_request i) = Some (signature (numbered_request i))"
    using s(2) by (simp add: numbered_request_def)
  show "signature (numbered_request i) \<noteq> []"
    using s(1) hmac_hex_nonempty by (simp add: numbered_request_def)
qed

lemma numbered_request_recorded:
  assumes "sharedSecret a = ''abc''" and "maxMessageAge a = 300000"
  shows "snd (verifyIncomingMessage 1700000000250 a (numbered_request i))
           = a\<lparr>usedNonces := finsert (replicate (Suc i) CHR ''n'') (usedNonces a)\<rparr>"
proof (cases "replicate (Suc i) CHR ''n'' |\<in>| usedNonces a")
  case True
  then have "verifyIncomingMessage 1700000000250 a (numbered_request i) = (False, a)"
    using assms by (simp add: verifyIncomingMessage_unfold numbered_request_fields)
  then show ?thesis using True by (simp add: finsert_absorb)
next
  case False
  then show ?thesis
    using assms numbered_request_signed(1) [of i]
    by (simp add: verifyIncomingMessage_accepts numbered_request_fields)
qed

lemma deliver_numbered:
  assumes "sharedSecret (authenticator st) = ''abc''"
      and "maxMessageAge (authenticator st) = 300000"
  shows "authenticator (deliver P callback 1700000000250
            (map (\<lambda>i. Object (raw_message (numbered_request i))) is) st)
           = (authenticator st)\<lparr>usedNonces :=
                usedNonces (authenticator st)
                  |\<union>| fset_of_list (map (\<lambda>i. replicate (Suc i) CHR ''n'') is)\<rparr>"
  using assms
proof (induction "is" arbitrary: st)
  case Nil
  then show ?case by simp
next
  case (Cons i "is")
  let ?st1 = "fst (onmessage P callback 1700000000250 1700000000250
                     (Object (raw_message (numbered_request i))) st)"
  have step: "authenticator ?st1
                = (authenticator st)\<lparr>usedNonces :=
                     finsert (replicate (Suc i) CHR ''n'') (usedNonces (authenticator st))\<rparr>"
    using Cons.prems numbered_request_signed(2) [of i]
      handler_authenticator [of "raw_message (numbered_request i)" st P callback
        1700000000250 1700000000250]
    by (simp add: raw_message_not_exchange raw_message_fields numbered_request_fields
        validateIncomingMessage_raw numbered_request_recorded)
  then have "sharedSecret (authenticator ?st1) = ''abc''"
    "maxMessageAge (authenticator ?st1) = 300000"
    using Cons.prems by simp_all
  then show ?case
    using Cons.IH [of ?st1] step by simp
qed

lemma numbered_nonces_distinct: "distinct (map (\<lambda>i. replicate (Suc i) CHR ''n'') [0..<k])"
proof -
  have "inj_on (\<lambda>i. replicate (Suc i) CHR ''n'') A" for A :: "nat set"
  proof (rule inj_onI)
    fix x y :: nat
    assume "replicate (Suc x) CHR ''n'' = replicate (Suc y) CHR ''n''"
    then have "length (replicate (Suc x) CHR ''n'') = length (replicate (Suc y) CHR ''n'')"
      by (rule arg_cong)
    then show "x = y" by simp
  qed
  then show ?thesis by (simp add: distinct_map)
qed

lemma sustained_traffic_ledger:
  "fcard (usedNonces (authenticator
      (deliver P callback 1700000000250 (sustained_traffic k) (keyed_adapter ''abc'')))) = k"
proof -
  have "card (set (map (\<lambda>i. replicate (Suc i) CHR ''n'') [0..<k]))
          = length (map (\<lambda>i. replicate (Suc i) CHR ''n'') [0..<k])"
    by (rule distinct_card [OF numbered_nonces_distinct])
  then have "fcard (fset_of_list (map (\<lambda>i. replicate (Suc i) CHR ''n'') [0..<k])) = k"
    by (simp add: fcard.rep_eq fset_of_list.rep_eq)
  then show ?thesis
    using deliver_numbered [of "keyed_adapter ''abc''" P callback "[0..<k]"]
    by (simp add: sustained_traffic_def keyed_adapter_fields)
qed

lemma signResponse_Inr:
  "signResponse now a response = Inr r \<Longrightarrow>
   \<exists>sig. r = JObj (responseData now response @ [(''signature'', JStr sig)])"
  by (auto simp: signResponse_def split: if_splits option.splits sum.splits)

lemma processWalletRequest_cases:
  "(\<exists>result w1. wallet_operation P req w = (Inr result, w1)
       \<and> processWalletRequest P req w
           = (Inr (JObj [(''requestId'', opt_str (requestId req)), (''success'', JBool True),
                         (''data'', result), (''error'', JUndefined)]), w1))
   \<or> (\<exists>err w1. wallet_operation P req w = (Inl err, w1) \<and> \<not> nullish err
       \<and> processWalletRequest P req w
           = (Inr (JObj [(''requestId'', opt_str (requestId req)), (''success'', JBool False),
                         (''data'', JNull),
                         (''error'', if truthy (js_get err ''message'')
                                     then js_get err ''message''
                                     else JStr ''Wallet operation failed'')]),
              w1))
   \<or> (\<exists>err w1. wallet_operation P req w = (Inl err, w1) \<and> nullish err
       \<and> processWalletRequest P req w = (Inl TypeError, w1))"
proof (cases "wallet_operation P req w")
  case (Pair outcome w1)
  show ?thesis
  proof (cases outcome)
    case (Inl err)
    then show ?thesis
      using Pair by (cases "nullish err") (simp_all add: processWalletRequest_def)
  next
    case (Inr result)
    then show ?thesis
      using Pair by (simp add: processWalletRequest_def)
  qed
qed

lemma truthy_defined: "truthy v \<Longrightarrow> v \<noteq> JUndefined"
  by (cases v) simp_all

lemma handler_signed_request:
  assumes "timestamp m \<noteq> 0" and "nonce m \<noteq> []" and "signature m \<noteq> []"
      and "truthy (opt_str (requestId m))"
      and "sharedSecret (authenticator st) \<noteq> []"
      and "verifyIncomingMessage now (authenticator st) m = (True, a1)"
      and "processWalletRequest P (stripAuthenticationFields (raw_message m)) (window st)
             = (Inr response, w1)"
      and "signResponse later a1 response = Inr r"
  shows "handleSecureMessage P callback now later (Object (raw_message m)) st
           = (Inr (), \<lparr>authenticator = a1, window = w1\<rparr>,
              [ProcessWalletRequest (stripAuthenticationFields (raw_message m)), PostMessage r])"
proof -
  have v: "validateIncomingMessage now (authenticator st) (raw_message m) = (True, a1)"
    using assms(1,2,3,6) by (simp add: validateIncomingMessage_raw)
  have rid: "truthy (opt_str (requestId (raw_message m)))"
    using assms(4) by (simp add: raw_message_fields)
  show ?thesis
    using handler_accepts [OF rid raw_message_not_exchange assms(5) v assms(7), of callback later]
      assms(8)
    by (simp add: send_secure_response_def createSecureResponse_def)
qed

lemma unsupported_request_fields:
  "timestamp unsupported_request = 1700000000000"
  "nonce unsupported_request = ''n1''"
  "requestId unsupported_request = Some ''1''"
  "action unsupported_request = Some ''TRANSFER_FUNDS''"
  "params unsupported_request = JUndefined"
  by (simp_all add: unsupported_request_def signed_with_def demo_request_def)

lemma unsupported_request_signed:
  "expectedSignature ''abc'' unsupported_request = Some (signature unsupported_request)"
  "signature unsupported_request \<noteq> []"
proof -
  let ?m = "demo_request\<lparr>action := Some ''TRANSFER_FUNDS''\<rparr>"
  have "\<not> has_bigint (params ?m)" by (simp add: demo_request_def)
  then obtain s where s: "signature (signed_with ''abc'' ?m) = hmac_hex s ''abc''"
    "expectedSignature ''abc'' (signed_with ''abc'' ?m) = Some (signature (signed_with ''abc'' ?m))"
    using signed_with_installed [of "''abc''" ?m] by auto
  show "expectedSignature ''abc'' unsupported_request = Some (signature unsupported_request)"
    using s(2) by (simp add: unsupported_request_def)
  show "signature unsupported_request \<noteq> []"
    using s(1) hmac_hex_nonempty by (simp add: unsupported_request_def)
qed

lemma demo_request_signature:
  "secret \<noteq> [] \<Longrightarrow>
   expectedSignature secret (signed_with secret demo_request)
     = Some (signature (signed_with secret demo_request))"
  "secret \<noteq> [] \<Longrightarrow> signature (signed_with secret demo_request) \<noteq> []"
proof -
  assume "secret \<noteq> []"
  then obtain s where s: "signature (signed_with secret demo_request) = hmac_hex s secret"
    "expectedSignature secret (signed_with secret demo_request)
       = Some (signature (signed_with secret demo_request))"
    using signed_with_installed [of secret demo_request] demo_request_plain by auto
  show "expectedSignature secret (signed_with secret demo_request)
          = Some (signature (signed_with secret demo_request))"
    by (rule s(2))
  show "signature (signed_with secret demo_request) \<noteq> []"
    using s(1) hmac_hex_nonempty by simp
qed

text \<open>
  A provider that rejects without a reason: the \<^verbatim>\<open>catch\<close> block of
  \<^verbatim>\<open>processWalletRequest\<close> throws on \<^verbatim>\<open>err.message\<close>, the exception leaves the handler
  after the nonce was recorded, and nothing is posted.
\<close>

lemma rejection_without_reason_escapes:
  "handleSecureMessage rejecting_provider callback 1700000000250 1700000000300
       (Object (raw_message (signed_with ''abc'' demo_request))) (keyed_adapter ''abc'')
     = (Inl TypeError, answered_adapter,
        [ProcessWalletRequest
           (stripAuthenticationFields (raw_message (signed_with ''abc'' demo_request)))])"
proof -
  let ?st = "keyed_adapter ''abc''"
  let ?m = "signed_with ''abc'' demo_request"
  let ?a1 = "(authenticator ?st)\<lparr>usedNonces := finsert ''n1'' (usedNonces (authenticator ?st))\<rparr>"
  have v: "verifyIncomingMessage 1700000000250 (authenticator ?st) ?m = (True, ?a1)"
    using demo_request_signature(1) [of "''abc''"]
    by (simp add: verifyIncomingMessage_accepts keyed_adapter_fields demo_request_fields)
  have valid: "validateIncomingMessage 1700000000250 (authenticator ?st) (raw_message ?m)
                 = (True, ?a1)"
    using v demo_request_signature(2) [of "''abc''"]
    by (simp add: validateIncomingMessage_raw demo_request_fields)
  have p: "processWalletRequest rejecting_provider
             (stripAuthenticationFields (raw_message ?m)) (window ?st)
             = (Inl TypeError, demo_window)"
    by (simp add: processWalletRequest_def wallet_operation_def get_chain_id_def call_def
        rejecting_provider_def stripAuthenticationFields_def raw_message_fields
        demo_request_fields keyed_adapter_fields demo_window_def nullish_def)
  have rid: "truthy (opt_str (requestId (raw_message ?m)))"
    by (simp add: raw_message_fields demo_request_fields)
  have secret: "sharedSecret (authenticator ?st) \<noteq> []"
    by (simp add: keyed_adapter_fields)
  have st: "\<lparr>authenticator = ?a1, window = demo_window\<rparr> = answered_adapter"
    by (simp add: answered_adapter_def keyed_adapter_def setSharedSecret_def
        new_MessageAuthenticator_def)
  show ?thesis
    using handler_dispatcher_throws [OF rid raw_message_not_exchange secret valid p,
        of callback 1700000000300]
    unfolding st .
qed

lemma deliver_append:
  "deliver P callback now (events @ later_events) st
     = deliver P callback now later_events (deliver P callback now events st)"
  by (induction events arbitrary: st) simp_all

lemma sustained_traffic_Suc:
  "sustained_traffic (Suc k) = sustained_traffic k @ [Object (raw_message (numbered_request k))]"
  by (simp add: sustained_traffic_def)

lemma cleanupNonces_within_bound:
  "fcard (usedNonces (authenticator st)) \<le> 1000 \<Longrightarrow> cleanupNonces st = st"
  by (simp add: cleanupNonces_def cleanupOldNonces_def)

lemma sequential_verifications_accept_once:
  assumes "sharedSecret a \<noteq> []"
      and "expectedSignature (sharedSecret a) m = Some (signature m)"
      and "\<bar>now - timestamp m\<bar> \<le> maxMessageAge a"
      and "nonce m |\<notin>| usedNonces a"
  shows "verifyIncomingMessage now a m
           = (True, a\<lparr>usedNonces := finsert (nonce m) (usedNonces a)\<rparr>)
         \<and> fst (verifyIncomingMessage now' (snd (verifyIncomingMessage now a m)) m) = False"
  using assms by (simp add: verifyIncomingMessage_unfold)

subsection \<open>The authenticator\<close>

text \<open>
  C1 holds for calls that do not overlap and fails for calls that do. The first call
  on a message that is correctly signed, fresh and carries an unused nonce returns
  true. But \<^verbatim>\<open>verifyIncomingMessage\<close> reads the ledger before it waits for the HMAC and
  adds the nonce after: when the identical message is verified again while the first
  call is still waiting, the second call finds the nonce unused as well, and both
  calls return true. The ledger then holds the nonce once.
\<close>

theorem overlapping_verifications_accept_twice:
  assumes "sharedSecret a \<noteq> []"
      and "expectedSignature (sharedSecret a) m = Some (signature m)"
      and "\<bar>now - timestamp m\<bar> \<le> maxMessageAge a"
      and "\<bar>now' - timestamp m\<bar> \<le> maxMessageAge a"
      and "nonce m |\<notin>| usedNonces a"
  shows "verifyIncomingMessage now a m
           = (True, a\<lparr>usedNonces := finsert (nonce m) (usedNonces a)\<rparr>)
         \<and> overlapping_verifications now now' a m m
           = (True, True, a\<lparr>usedNonces := finsert (nonce m) (usedNonces a)\<rparr>)"
proof -
  obtain messageString where
    str: "JSON_stringify (messageWithoutSignature m) = Some messageString"
    and mac: "computeHMAC messageString (sharedSecret a) = Inr (signature m)"
    using assms(2) by (auto simp: expectedSignature_def split: option.splits sum.splits)
  have "verifyIncomingMessage_begin now a m = Awaiting (Inr (signature m))"
    and "verifyIncomingMessage_begin now' a m = Awaiting (Inr (signature m))"
    using assms str mac by (simp_all add: verifyIncomingMessage_begin_def)
  then show ?thesis
    by (simp add: verifyIncomingMessage_def overlapping_verifications_def
        verifyIncomingMessage_resume_def)
qed

theorem overlapping_verifications_accept_twice_witness:
  "verifyIncomingMessage 1700000000250 (setSharedSecret ''abc'' new_MessageAuthenticator)
       (signed_with ''abc'' demo_request)
     = (True, \<lparr>sharedSecret = ''abc'', usedNonces = {|''n1''|}, maxMessageAge = 300000\<rparr>)
   \<and> overlapping_verifications 1700000000250 1700000000260
       (setSharedSecret ''abc'' new_MessageAuthenticator)
       (signed_with ''abc'' demo_request) (signed_with ''abc'' demo_request)
     = (True, True, \<lparr>sharedSecret = ''abc'', usedNonces = {|''n1''|}, maxMessageAge = 300000\<rparr>)"
proof -
  let ?a = "setSharedSecret ''abc'' new_MessageAuthenticator"
  let ?m = "signed_with ''abc'' demo_request"
  obtain sig where sig: "expectedSignature ''abc'' demo_request = Some sig"
    using demo_request_expected [of "''abc''"] by auto
  have h1: "sharedSecret ?a \<noteq> []"
    by (simp add: setSharedSecret_def)
  have h2: "expectedSignature (sharedSecret ?a) ?m = Some (signature ?m)"
    using signed_with_correct [OF sig] by (simp add: setSharedSecret_def)
  have h3: "\<bar>1700000000250 - timestamp ?m\<bar> \<le> maxMessageAge ?a"
    by (simp add: signed_with_fields demo_request_def setSharedSecret_def
        new_MessageAuthenticator_def)
  have h4: "\<bar>1700000000260 - timestamp ?m\<bar> \<le> maxMessageAge ?a"
    by (simp add: signed_with_fields demo_request_def setSharedSecret_def
        new_MessageAuthenticator_def)
  have h5: "nonce ?m |\<notin>| usedNonces ?a"
    by (simp add: setSharedSecret_def)
  have st: "?a\<lparr>usedNonces := finsert (nonce ?m) (usedNonces ?a)\<rparr>
              = \<lparr>sharedSecret = ''abc'', usedNonces = {|''n1''|}, maxMessageAge = 300000\<rparr>"
    by (simp add: signed_with_fields demo_request_def setSharedSecret_def
        new_MessageAuthenticator_def)
  show ?thesis
    using overlapping_verifications_accept_twice [OF h1 h2 h3 h4 h5]
    unfolding st .
qed

text \<open>
  C2. A message whose timestamp differs from the clock by more than
  \<^verbatim>\<open>maxMessageAge\<close>, in either direction, is rejected, whatever its signature and
  its nonce are (and the authenticator is left as it was).
\<close>

theorem verify_rejects_stale:
  assumes "\<bar>now - timestamp m\<bar> > maxMessageAge a"
  shows "verifyIncomingMessage now a m = (False, a)"
  using assms by (simp add: verifyIncomingMessage_unfold)

theorem verify_rejects_stale_witness:
  "\<bar>1700000300001 - timestamp (signed_with ''abc'' demo_request)\<bar>
      > maxMessageAge (setSharedSecret ''abc'' new_MessageAuthenticator)
   \<and> verifyIncomingMessage 1700000300001 (setSharedSecret ''abc'' new_MessageAuthenticator)
         (signed_with ''abc'' demo_request)
       = (False, setSharedSecret ''abc'' new_MessageAuthenticator)
   \<and> \<bar>1699999699999 - timestamp (signed_with ''abc'' demo_request)\<bar>
      > maxMessageAge (setSharedSecret ''abc'' new_MessageAuthenticator)
   \<and> verifyIncomingMessage 1699999699999 (setSharedSecret ''abc'' new_MessageAuthenticator)
         (signed_with ''abc'' demo_request)
       = (False, setSharedSecret ''abc'' new_MessageAuthenticator)"
proof -
  let ?a = "setSharedSecret ''abc'' new_MessageAuthenticator"
  let ?m = "signed_with ''abc'' demo_request"
  have late: "\<bar>1700000300001 - timestamp ?m\<bar> > maxMessageAge ?a"
    by (simp add: signed_with_fields demo_request_def setSharedSecret_def
        new_MessageAuthenticator_def)
  have early: "\<bar>1699999699999 - timestamp ?m\<bar> > maxMessageAge ?a"
    by (simp add: signed_with_fields demo_request_def setSharedSecret_def
        new_MessageAuthenticator_def)
  show ?thesis
    using late early verify_rejects_stale [OF late] verify_rejects_stale [OF early]
    by blast
qed

text \<open>
  C10. Whenever \<^verbatim>\<open>verifyIncomingMessage\<close> returns false, for whichever reason, the
  authenticator is unchanged; so the rejected message is verified later exactly as if
  the rejected attempt had not happened.
\<close>

theorem verify_false_keeps_state:
  assumes "fst (verifyIncomingMessage now a m) = False"
  shows "snd (verifyIncomingMessage now a m) = a
         \<and> verifyIncomingMessage now' (snd (verifyIncomingMessage now a m)) m
             = verifyIncomingMessage now' a m"
proof -
  have "snd (verifyIncomingMessage now a m) = a"
    using assms by (auto simp: verifyIncomingMessage_unfold split: if_splits option.splits)
  then show ?thesis by simp
qed

theorem verify_false_keeps_state_witness:
  "fst (verifyIncomingMessage 1699999000000 (setSharedSecret ''abc'' new_MessageAuthenticator)
          (signed_with ''abc'' demo_request)) = False
   \<and> snd (verifyIncomingMessage 1699999000000 (setSharedSecret ''abc'' new_MessageAuthenticator)
          (signed_with ''abc'' demo_request))
       = setSharedSecret ''abc'' new_MessageAuthenticator
   \<and> fst (verifyIncomingMessage 1700000000250
           (snd (verifyIncomingMessage 1699999000000
                   (setSharedSecret ''abc'' new_MessageAuthenticator)
                   (signed_with ''abc'' demo_request)))
           (signed_with ''abc'' demo_request)) = True"
proof -
  let ?a = "setSharedSecret ''abc'' new_MessageAuthenticator"
  let ?m = "signed_with ''abc'' demo_request"
  have stale: "\<bar>1699999000000 - timestamp ?m\<bar> > maxMessageAge ?a"
    by (simp add: signed_with_fields demo_request_def setSharedSecret_def
        new_MessageAuthenticator_def)
  have rejected: "fst (verifyIncomingMessage 1699999000000 ?a ?m) = False"
    using stale by (simp add: verifyIncomingMessage_unfold setSharedSecret_def)
  obtain sig where sig: "expectedSignature ''abc'' demo_request = Some sig"
    using demo_request_expected [of "''abc''"] by auto
  have later: "fst (verifyIncomingMessage 1700000000250 ?a ?m) = True"
    using signed_with_correct [OF sig]
    by (simp add: verifyIncomingMessage_unfold setSharedSecret_def new_MessageAuthenticator_def
        signed_with_fields demo_request_def)
  show ?thesis
    using rejected later verify_false_keeps_state [OF rejected, of 1700000000250]
    by simp
qed

text \<open>
  C5, as stated, fails. HMAC fills a key shorter than its block up with zero bytes,
  so the secret \<^verbatim>\<open>"abc"\<close> and the different secret \<^verbatim>\<open>"abc\u0000"\<close> give every
  message the same signature: after an exchange installs the second, a message signed
  under the first, previously active, one still verifies.
\<close>

theorem rotation_accepts_equivalent_key:
  "''abc'' @ [CHR 0x00] \<noteq> ''abc''
   \<and> fst (verifyIncomingMessage 1700000000250 (authenticator (keyed_adapter ''abc''))
           (signed_with ''abc'' demo_request)) = True
   \<and> fst (verifyIncomingMessage 1700000000250
           (authenticator (fst (snd (handleSecureMessage demo_provider returning_callback
               1700000000100 1700000000100
               (Object (exchange_message (Some ''2'') (Some (''abc'' @ [CHR 0x00]))))
               (keyed_adapter ''abc'')))))
           (signed_with ''abc'' demo_request)) = True"
proof -
  let ?m = "signed_with ''abc'' demo_request"
  let ?rotated = "\<lparr>sharedSecret = ''abc'' @ [CHR 0x00], usedNonces = {||},
                   maxMessageAge = 300000\<rparr>"
  obtain s where s: "JSON_stringify (messageWithoutSignature demo_request) = Some s"
    "signature ?m = hmac_hex s ''abc''"
    "expectedSignature ''abc'' ?m = Some (signature ?m)"
    using signed_with_installed [of "''abc''" demo_request] demo_request_plain by auto
  have "expectedSignature (''abc'' @ [CHR 0x00]) ?m = Some (hmac_hex s (''abc'' @ [CHR 0x00]))"
    using s(1) by (simp add: expectedSignature_def signed_with_def
        messageWithoutSignature_signature computeHMAC_installed)
  then have same: "expectedSignature (''abc'' @ [CHR 0x00]) ?m = Some (signature ?m)"
    using s(2) hmac_hex_zero [of "''abc''" s] by simp
  have old: "fst (verifyIncomingMessage 1700000000250 (authenticator (keyed_adapter ''abc'')) ?m)
               = True"
    using s(3)
    by (simp add: verifyIncomingMessage_accepts keyed_adapter_fields demo_request_fields)
  have installed: "authenticator (fst (snd (handleSecureMessage demo_provider returning_callback
               1700000000100 1700000000100
               (Object (exchange_message (Some ''2'') (Some (''abc'' @ [CHR 0x00]))))
               (keyed_adapter ''abc'')))) = ?rotated"
    by (simp add: handleSecureMessage_def exchange_message_def is_secret_exchange_def
      notify_and_acknowledge_def returning_callback_def
        keyed_adapter_def setSharedSecret_def new_MessageAuthenticator_def)
  have new: "fst (verifyIncomingMessage 1700000000250 ?rotated ?m) = True"
    using same by (simp add: verifyIncomingMessage_accepts demo_request_fields)
  show ?thesis using old new installed by simp
qed

text \<open>
  C5, amended. \<^verbatim>\<open>setSharedSecret\<close> always replaces the active secret and empties the
  ledger, for every prior state. Consequently verification after it depends on the
  new secret alone: a message passes exactly when the new secret is non-empty, the
  message is fresh and its signature is the HMAC of its serialization under the new
  secret. A message signed under a previously active secret is therefore rejected
  whenever its signature is not also the HMAC under the new one.
\<close>

theorem rotation_depends_on_new_secret:
  "sharedSecret (setSharedSecret S1 a) = S1
   \<and> usedNonces (setSharedSecret S1 a) = {||}
   \<and> maxMessageAge (setSharedSecret S1 a) = maxMessageAge a
   \<and> fst (verifyIncomingMessage now (setSharedSecret S1 a) m)
       = (S1 \<noteq> [] \<and> \<bar>now - timestamp m\<bar> \<le> maxMessageAge a
          \<and> expectedSignature S1 m = Some (signature m))
   \<and> (expectedSignature S1 m \<noteq> Some (signature m) \<longrightarrow>
        verifyIncomingMessage now (setSharedSecret S1 a) m = (False, setSharedSecret S1 a))"
  by (auto simp: setSharedSecret_def verifyIncomingMessage_unfold split: option.splits)

theorem rotation_depends_on_new_secret_witness:
  "expectedSignature ''xyz'' forged_request \<noteq> Some ''00''
   \<and> verifyIncomingMessage 1700000000250
        (setSharedSecret ''xyz'' (authenticator (keyed_adapter ''abc'')))
        forged_request
      = (False, \<lparr>sharedSecret = ''xyz'', usedNonces = {||}, maxMessageAge = 300000\<rparr>)
   \<and> fst (verifyIncomingMessage 1700000000250
        (setSharedSecret ''xyz'' (authenticator (keyed_adapter ''abc'')))
        (signed_with ''xyz'' demo_request)) = True"
proof -
  let ?a = "authenticator (keyed_adapter ''abc'')"
  let ?bad = "forged_request"
  let ?good = "signed_with ''xyz'' demo_request"
  obtain s where s: "expectedSignature ''xyz'' demo_request = Some (hmac_hex s ''xyz'')"
    "expectedSignature ''xyz'' ?good = Some (signature ?good)"
    using signed_with_installed [of "''xyz''" demo_request] demo_request_plain by auto
  have "hmac_hex s ''xyz'' \<noteq> ''00''"
    using hmac_hex_length [of s "''xyz''"] by auto
  then have differs: "expectedSignature ''xyz'' ?bad \<noteq> Some (signature ?bad)"
    using s(1) by (simp add: forged_request_fields)
  have st: "setSharedSecret ''xyz'' ?a
              = \<lparr>sharedSecret = ''xyz'', usedNonces = {||}, maxMessageAge = 300000\<rparr>"
    by (simp add: keyed_adapter_def setSharedSecret_def new_MessageAuthenticator_def)
  have fresh: "\<bar>1700000000250 - timestamp ?good\<bar> \<le> maxMessageAge ?a"
    by (simp add: demo_request_fields keyed_adapter_fields)
  have r1: "verifyIncomingMessage 1700000000250 (setSharedSecret ''xyz'' ?a) ?bad
              = (False, setSharedSecret ''xyz'' ?a)"
    using rotation_depends_on_new_secret [of "''xyz''" ?a 1700000000250 ?bad] differs
    by blast
  have r2: "fst (verifyIncomingMessage 1700000000250 (setSharedSecret ''xyz'' ?a) ?good) = True"
    using rotation_depends_on_new_secret [of "''xyz''" ?a 1700000000250 ?good] fresh s(2)
    by simp
  have d: "expectedSignature ''xyz'' ?bad \<noteq> Some ''00''"
    using differs by (simp add: forged_request_fields)
  show ?thesis using r1 r2 d unfolding st by simp
qed

subsection \<open>Signing responses\<close>

text \<open>
  C7, as stated, fails in its second half: with a secret installed, an envelope whose
  \<^verbatim>\<open>data\<close> holds a BigInt (the wallet provider may resolve with any value) makes
  \<^verbatim>\<open>JSON.stringify\<close> throw, so \<^verbatim>\<open>signResponse\<close> throws instead of returning.
\<close>

theorem sign_response_unserializable:
  "sharedSecret (authenticator (keyed_adapter ''abc'')) \<noteq> []
   \<and> signResponse 1700000000300 (authenticator (keyed_adapter ''abc''))
         (JObj [(''requestId'', JStr ''1''), (''success'', JBool True),
                (''data'', JBigInt 5), (''error'', JUndefined)])
       = Inl TypeError
   \<and> send_secure_response 1700000000300 (authenticator (keyed_adapter ''abc''))
         (JObj [(''requestId'', JStr ''1''), (''success'', JBool True),
                (''data'', JBigInt 5), (''error'', JUndefined)])
       = (Inl TypeError, [])"
  by (simp add: signResponse_def send_secure_response_def createSecureResponse_def
      responseData_def JSON_stringify_def keyed_adapter_fields)

text \<open>
  C7, amended. \<^verbatim>\<open>signResponse\<close> throws whenever no secret is installed, the exception
  goes through \<^verbatim>\<open>createSecureResponse\<close> to the handler, and nothing is posted. With a
  secret installed and an envelope that \<^verbatim>\<open>JSON.stringify\<close> can serialize, it returns
  the envelope's four fields, the timestamp and, as signature, the HMAC of the JSON
  text of those five fields. Whatever \<^verbatim>\<open>signResponse\<close> throws, nothing is posted.
\<close>

theorem sign_response_contract:
  "(sharedSecret a = [] \<longrightarrow>
      signResponse now a response = Inl (Error no_secret_for_signing)
      \<and> createSecureResponse now a response = Inl (Error no_secret_for_signing)
      \<and> send_secure_response now a response = (Inl (Error no_secret_for_signing), []))
   \<and> (\<forall>s. sharedSecret a \<noteq> [] \<and> JSON_stringify (JObj (responseData now response)) = Some s \<longrightarrow>
      signResponse now a response
        = Inr (JObj [(''requestId'', js_get response ''requestId''),
                     (''success'', js_get response ''success''),
                     (''data'', js_get response ''data''),
                     (''error'', js_get response ''error''),
                     (''timestamp'', JNum now),
                     (''signature'', JStr (hmac_hex s (sharedSecret a)))])
      \<and> computeHMAC s (sharedSecret a) = Inr (hmac_hex s (sharedSecret a)))
   \<and> (\<forall>e. signResponse now a response = Inl e \<longrightarrow>
         send_secure_response now a response = (Inl e, []))"
  by (simp add: signResponse_def createSecureResponse_def send_secure_response_def
      computeHMAC_installed responseData_def)

theorem sign_response_contract_witness:
  "signResponse 1700000000300 new_MessageAuthenticator demo_response
     = Inl (Error no_secret_for_signing)
   \<and> send_secure_response 1700000000300 new_MessageAuthenticator demo_response
     = (Inl (Error no_secret_for_signing), [])
   \<and> (\<exists>s. JSON_stringify (JObj (responseData 1700000000300 demo_response)) = Some s
        \<and> signResponse 1700000000300 (setSharedSecret ''abc'' new_MessageAuthenticator)
              demo_response
          = Inr (JObj [(''requestId'', JStr ''1''), (''success'', JBool True),
                       (''data'', JStr ''0x1''), (''error'', JUndefined),
                       (''timestamp'', JNum 1700000000300),
                       (''signature'', JStr (hmac_hex s ''abc''))]))"
proof -
  let ?a = "setSharedSecret ''abc'' new_MessageAuthenticator"
  have unkeyed: "sharedSecret new_MessageAuthenticator = []"
    by (simp add: new_MessageAuthenticator_def)
  have keyed: "sharedSecret ?a \<noteq> []"
    by (simp add: setSharedSecret_def)
  obtain s where s: "JSON_stringify (JObj (responseData 1700000000300 demo_response)) = Some s"
    using JSON_stringify_object [of "responseData 1700000000300 demo_response"]
    by (auto simp: responseData_def demo_response_def)
  have fields: "js_get demo_response ''requestId'' = JStr ''1''"
    "js_get demo_response ''success'' = JBool True"
    "js_get demo_response ''data'' = JStr ''0x1''"
    "js_get demo_response ''error'' = JUndefined"
    by (simp_all add: demo_response_def)
  have secret: "sharedSecret ?a = ''abc''"
    by (simp add: setSharedSecret_def)
  show ?thesis
    using sign_response_contract [of new_MessageAuthenticator 1700000000300 demo_response]
      sign_response_contract [of ?a 1700000000300 demo_response] unkeyed keyed s
    by (simp add: fields secret)
qed

subsection \<open>The handler\<close>

text \<open>
  C3, as stated, fails: with no secret installed, a message whose action is
  \<^verbatim>\<open>EXCHANGE_SHARED_SECRET\<close> but which carries no \<^verbatim>\<open>widgetSecret\<close> is not
  acknowledged; it is answered with the precondition error and no secret is installed.
\<close>

theorem exchange_without_secret_not_acknowledged:
  "handleSecureMessage demo_provider returning_callback 1700000000250 1700000000300
       (Object (exchange_message (Some ''1'') None)) fresh_adapter
     = (Inr (), fresh_adapter, [PostMessage (errorResponse (exchange_message (Some ''1'') None))])
   \<and> action (exchange_message (Some ''1'') None) = Some ''EXCHANGE_SHARED_SECRET''
   \<and> errorResponse (exchange_message (Some ''1'') None)
       \<noteq> ackResponse (exchange_message (Some ''1'') None)"
  by (simp add: handleSecureMessage_def exchange_message_def is_secret_exchange_def
      notify_and_acknowledge_def returning_callback_def
      fresh_adapter_def new_MessageAuthenticator_def getSharedSecret_def errorResponse_def
      ackResponse_def)

text \<open>
  C3, amended. While no secret is installed, every structurally valid message that
  is not a secret exchange (its action is not \<^verbatim>\<open>EXCHANGE_SHARED_SECRET\<close>, or it
  carries no non-empty \<^verbatim>\<open>widgetSecret\<close>) is answered with the unsigned precondition
  error; the state is unchanged and the dispatcher is not called. An
  \<^verbatim>\<open>EXCHANGE_SHARED_SECRET\<close> message with a non-empty \<^verbatim>\<open>widgetSecret\<close> is accepted
  in that state: its secret is installed. It is acknowledged when no callback is
  registered or the callback returns; when the callback throws, the exception leaves
  the handler, the secret stays installed and no acknowledgment is posted.
\<close>

theorem unkeyed_channel:
  assumes "truthy (opt_str (requestId m))"
      and "sharedSecret (authenticator st) = []"
  shows "(\<not> is_secret_exchange m \<longrightarrow>
            handleSecureMessage P callback now later (Object m) st
              = (Inr (), st, [PostMessage (errorResponse m)]))
         \<and> (\<forall>secret. action m = Some ''EXCHANGE_SHARED_SECRET'' \<and> widgetSecret m = Some secret
                \<and> secret \<noteq> [] \<longrightarrow>
              (callback = None \<longrightarrow>
                 handleSecureMessage P callback now later (Object m) st
                   = (Inr (), st\<lparr>authenticator := setSharedSecret secret (authenticator st)\<rparr>,
                      [PostMessage (ackResponse m)]))
              \<and> (\<forall>f. callback = Some f \<and> f secret = Inr () \<longrightarrow>
                 handleSecureMessage P callback now later (Object m) st
                   = (Inr (), st\<lparr>authenticator := setSharedSecret secret (authenticator st)\<rparr>,
                      [OnSharedSecretReceived secret, PostMessage (ackResponse m)]))
              \<and> (\<forall>f e. callback = Some f \<and> f secret = Inl e \<longrightarrow>
                 handleSecureMessage P callback now later (Object m) st
                   = (Inl e, st\<lparr>authenticator := setSharedSecret secret (authenticator st)\<rparr>,
                      [OnSharedSecretReceived secret])))"
  using assms
  by (simp add: handleSecureMessage_def is_secret_exchange_def getSharedSecret_def
      notify_and_acknowledge_def)

theorem unkeyed_channel_witness:
  "handleSecureMessage demo_provider returning_callback 1700000000250 1700000000300
       (Object (plain_request ''7'' ''GET_CHAIN_ID'')) fresh_adapter
     = (Inr (), fresh_adapter,
        [PostMessage (JObj [(''requestId'', JStr ''7''), (''success'', JBool False),
           (''error'', JStr (''SECURITY_ERROR: Shared secret not established. Widget must ''
              @ ''initialize secure communication first via EXCHANGE_SHARED_SECRET action.''))])])
   \<and> handleSecureMessage demo_provider None 1700000000250 1700000000300
       (Object (exchange_message (Some ''1'') (Some ''abc''))) fresh_adapter
     = (Inr (), keyed_adapter ''abc'',
        [PostMessage (JObj [(''requestId'', JStr ''1''), (''success'', JBool True),
           (''data'', JObj [(''message'', JStr ''Shared secret received'')])])])
   \<and> handleSecureMessage demo_provider returning_callback 1700000000250 1700000000300
       (Object (exchange_message (Some ''1'') (Some ''abc''))) fresh_adapter
     = (Inr (), keyed_adapter ''abc'',
        [OnSharedSecretReceived ''abc'',
         PostMessage (JObj [(''requestId'', JStr ''1''), (''success'', JBool True),
           (''data'', JObj [(''message'', JStr ''Shared secret received'')])])])
   \<and> handleSecureMessage demo_provider throwing_callback 1700000000250 1700000000300
       (Object (exchange_message (Some ''1'') (Some ''abc''))) fresh_adapter
     = (Inl (Error ''host callback failed''), keyed_adapter ''abc'',
        [OnSharedSecretReceived ''abc''])"
proof -
  have a: "truthy (opt_str (requestId (plain_request ''7'' ''GET_CHAIN_ID'')))"
    by (simp add: plain_request_def)
  have b: "truthy (opt_str (requestId (exchange_message (Some ''1'') (Some ''abc''))))"
    by (simp add: exchange_message_def)
  have c: "sharedSecret (authenticator fresh_adapter) = []"
    by (simp add: fresh_adapter_def new_MessageAuthenticator_def)
  show ?thesis
    using unkeyed_channel [OF a c, of demo_provider returning_callback 1700000000250 1700000000300]
      unkeyed_channel [OF b c, of demo_provider None 1700000000250 1700000000300]
      unkeyed_channel [OF b c, of demo_provider returning_callback 1700000000250 1700000000300]
      unkeyed_channel [OF b c, of demo_provider throwing_callback 1700000000250 1700000000300]
    by (simp add: is_secret_exchange_def plain_request_def exchange_message_def
        errorResponse_def ackResponse_def fresh_adapter_def keyed_adapter_def
        returning_callback_def throwing_callback_def)
qed

text \<open>
  C4, as stated, fails: a message whose action is \<^verbatim>\<open>EXCHANGE_SHARED_SECRET\<close> and whose
  \<^verbatim>\<open>widgetSecret\<close> is the empty string does not pass the guard of the exchange
  branch. On a keyed channel it is then treated as an unauthenticated request and
  dropped: nothing is installed, the callback is not called, nothing is sent back.
\<close>

theorem exchange_with_empty_secret_dropped:
  "handleSecureMessage demo_provider returning_callback 1700000000250 1700000000300
       (Object (exchange_message (Some ''1'') (Some []))) (keyed_adapter ''abc'')
     = (Inr (), keyed_adapter ''abc'', [])
   \<and> action (exchange_message (Some ''1'') (Some [])) = Some ''EXCHANGE_SHARED_SECRET''
   \<and> truthy (opt_str (requestId (exchange_message (Some ''1'') (Some []))))"
  by (simp add: handleSecureMessage_def exchange_message_def is_secret_exchange_def
      notify_and_acknowledge_def returning_callback_def
      keyed_adapter_def setSharedSecret_def getSharedSecret_def validateIncomingMessage_def)

text \<open>
  C4, amended. Every structurally valid message whose action is
  \<^verbatim>\<open>EXCHANGE_SHARED_SECRET\<close> and which carries a non-empty \<^verbatim>\<open>widgetSecret\<close> is
  processed without authentication, in every state and whatever its other fields are:
  the secret is installed (and the ledger emptied) and the callback, if one is
  registered, is called with the secret. When no callback is registered or the
  callback returns, an unsigned acknowledgment with the same \<^verbatim>\<open>requestId\<close> is posted
  and nothing is thrown. When the callback throws, its exception leaves the handler
  with the secret installed, and no acknowledgment is posted.
\<close>

theorem secret_exchange_handled:
  assumes "requestId m = Some rid" and "rid \<noteq> []"
      and "action m = Some ''EXCHANGE_SHARED_SECRET''"
      and "widgetSecret m = Some secret" and "secret \<noteq> []"
  shows "(callback = None \<longrightarrow>
            handleSecureMessage P callback now later (Object m) st
              = (Inr (),
                 st\<lparr>authenticator := (authenticator st)\<lparr>sharedSecret := secret, usedNonces := {||}\<rparr>\<rparr>,
                 [PostMessage (JObj [(''requestId'', JStr rid), (''success'', JBool True),
                    (''data'', JObj [(''message'', JStr ''Shared secret received'')])])]))
         \<and> (\<forall>f. callback = Some f \<and> f secret = Inr () \<longrightarrow>
            handleSecureMessage P callback now later (Object m) st
              = (Inr (),
                 st\<lparr>authenticator := (authenticator st)\<lparr>sharedSecret := secret, usedNonces := {||}\<rparr>\<rparr>,
                 [OnSharedSecretReceived secret,
                  PostMessage (JObj [(''requestId'', JStr rid), (''success'', JBool True),
                    (''data'', JObj [(''message'', JStr ''Shared secret received'')])])]))
         \<and> (\<forall>f e. callback = Some f \<and> f secret = Inl e \<longrightarrow>
            handleSecureMessage P callback now later (Object m) st
              = (Inl e,
                 st\<lparr>authenticator := (authenticator st)\<lparr>sharedSecret := secret, usedNonces := {||}\<rparr>\<rparr>,
                 [OnSharedSecretReceived secret]))"
  using assms
  by (simp add: handleSecureMessage_def is_secret_exchange_def setSharedSecret_def ackResponse_def
      notify_and_acknowledge_def)

theorem secret_exchange_handled_witness:
  "handleSecureMessage demo_provider returning_callback 1700000000250 1700000000300
       (Object (exchange_message (Some ''1'') (Some ''xyz''))) (keyed_adapter ''abc'')
     = (Inr (), keyed_adapter ''xyz'',
        [OnSharedSecretReceived ''xyz'',
         PostMessage (JObj [(''requestId'', JStr ''1''), (''success'', JBool True),
           (''data'', JObj [(''message'', JStr ''Shared secret received'')])])])
   \<and> handleSecureMessage demo_provider None 1700000000250 1700000000300
       (Object (exchange_message (Some ''1'') (Some ''xyz''))) (keyed_adapter ''abc'')
     = (Inr (), keyed_adapter ''xyz'',
        [PostMessage (JObj [(''requestId'', JStr ''1''), (''success'', JBool True),
           (''data'', JObj [(''message'', JStr ''Shared secret received'')])])])
   \<and> handleSecureMessage demo_provider throwing_callback 1700000000250 1700000000300
       (Object (exchange_message (Some ''1'') (Some ''xyz''))) (keyed_adapter ''abc'')
     = (Inl (Error ''host callback failed''), keyed_adapter ''xyz'',
        [OnSharedSecretReceived ''xyz''])"
  using secret_exchange_handled [of "exchange_message (Some ''1'') (Some ''xyz'')" "''1''" "''xyz''"
      returning_callback demo_provider 1700000000250 1700000000300 "keyed_adapter ''abc''"]
    secret_exchange_handled [of "exchange_message (Some ''1'') (Some ''xyz'')" "''1''" "''xyz''"
      None demo_provider 1700000000250 1700000000300 "keyed_adapter ''abc''"]
    secret_exchange_handled [of "exchange_message (Some ''1'') (Some ''xyz'')" "''1''" "''xyz''"
      throwing_callback demo_provider 1700000000250 1700000000300 "keyed_adapter ''abc''"]
  by (simp add: exchange_message_def keyed_adapter_def setSharedSecret_def
      returning_callback_def throwing_callback_def)

text \<open>
  C6, as stated, fails: a secret exchange received while a secret is installed has
  no \<^verbatim>\<open>timestamp\<close>, \<^verbatim>\<open>nonce\<close> or \<^verbatim>\<open>signature\<close>, and is answered with the
  acknowledgment.
\<close>

theorem exchange_in_keyed_state_answered:
  "handleSecureMessage demo_provider None 1700000000250 1700000000300
       (Object (exchange_message (Some ''9'') (Some ''rotated''))) (keyed_adapter ''abc'')
     = (Inr (), keyed_adapter ''rotated'',
        [PostMessage (JObj [(''requestId'', JStr ''9''), (''success'', JBool True),
           (''data'', JObj [(''message'', JStr ''Shared secret received'')])])])
   \<and> raw_timestamp (exchange_message (Some ''9'') (Some ''rotated'')) = None
   \<and> raw_nonce (exchange_message (Some ''9'') (Some ''rotated'')) = None
   \<and> raw_signature (exchange_message (Some ''9'') (Some ''rotated'')) = None
   \<and> sharedSecret (authenticator (keyed_adapter ''abc'')) \<noteq> []"
  by (simp add: handleSecureMessage_def exchange_message_def is_secret_exchange_def
      notify_and_acknowledge_def returning_callback_def
      keyed_adapter_def setSharedSecret_def ackResponse_def)

text \<open>
  C6, amended. While a secret is installed, a message that is not a structurally
  valid object with a \<^verbatim>\<open>requestId\<close> is dropped; and a message that is not a secret
  exchange and either lacks \<^verbatim>\<open>timestamp\<close>, \<^verbatim>\<open>nonce\<close> or \<^verbatim>\<open>signature\<close> (absent, or
  present and falsy) or fails \<^verbatim>\<open>verifyIncomingMessage\<close> is dropped too: no effect of
  any kind, and the state is unchanged.
\<close>

theorem silent_drop:
  assumes "sharedSecret (authenticator st) \<noteq> []"
      and "event = NonObject
           \<or> (\<exists>m. event = Object m
                \<and> (\<not> truthy (opt_str (requestId m))
                    \<or> \<not> is_secret_exchange m
                      \<and> (\<not> truthy (opt_num (raw_timestamp m))
                          \<or> \<not> truthy (opt_str (raw_nonce m))
                          \<or> \<not> truthy (opt_str (raw_signature m))
                          \<or> (\<exists>t n s. raw_timestamp m = Some t \<and> raw_nonce m = Some n
                                \<and> raw_signature m = Some s
                                \<and> fst (verifyIncomingMessage now (authenticator st)
                                         (as_AuthenticatedMessage m t n s)) = False))))"
  shows "handleSecureMessage P callback now later event st = (Inr (), st, [])"
proof -
  have drop: "handleSecureMessage P callback now later (Object m) st = (Inr (), st, [])"
    if "\<not> is_secret_exchange m" "fst (validateIncomingMessage now (authenticator st) m) = False"
       "snd (validateIncomingMessage now (authenticator st) m) = authenticator st"
    for m
    using that assms(1)
    by (cases "validateIncomingMessage now (authenticator st) m")
       (simp add: handleSecureMessage_def getSharedSecret_def)
  have missing: "validateIncomingMessage now a m = (False, a)"
    if "\<not> truthy (opt_num (raw_timestamp m)) \<or> \<not> truthy (opt_str (raw_nonce m))
          \<or> \<not> truthy (opt_str (raw_signature m))" for a m
    using that
    by (cases "raw_timestamp m"; cases "raw_nonce m"; cases "raw_signature m")
       (auto simp: validateIncomingMessage_def)
  have failed: "validateIncomingMessage now a m = (False, a)"
    if "raw_timestamp m = Some t" "raw_nonce m = Some n" "raw_signature m = Some s"
       "fst (verifyIncomingMessage now a (as_AuthenticatedMessage m t n s)) = False" for a m t n s
    using that verifyIncomingMessage_rejected [of now a "as_AuthenticatedMessage m t n s"]
    by (simp add: validateIncomingMessage_def)
  from assms(2) show ?thesis
  proof (elim disjE exE conjE)
    assume "event = NonObject"
    then show ?thesis by (simp add: handleSecureMessage_def)
  next
    fix m assume "event = Object m" "\<not> truthy (opt_str (requestId m))"
    then show ?thesis by (simp add: handleSecureMessage_def)
  next
    fix m assume "event = Object m" "\<not> is_secret_exchange m"
      "\<not> truthy (opt_num (raw_timestamp m))"
    then show ?thesis using drop [of m] missing [of m "authenticator st"] by simp
  next
    fix m assume "event = Object m" "\<not> is_secret_exchange m"
      "\<not> truthy (opt_str (raw_nonce m))"
    then show ?thesis using drop [of m] missing [of m "authenticator st"] by simp
  next
    fix m assume "event = Object m" "\<not> is_secret_exchange m"
      "\<not> truthy (opt_str (raw_signature m))"
    then show ?thesis using drop [of m] missing [of m "authenticator st"] by simp
  next
    fix m t n s assume "event = Object m" "\<not> is_secret_exchange m"
      "raw_timestamp m = Some t" "raw_nonce m = Some n" "raw_signature m = Some s"
      "fst (verifyIncomingMessage now (authenticator st) (as_AuthenticatedMessage m t n s)) = False"
    then show ?thesis using drop [of m] failed [of m t n s "authenticator st"] by simp
  qed
qed

theorem silent_drop_witness:
  "handleSecureMessage demo_provider returning_callback 1700000000250 1700000000300 NonObject
       (keyed_adapter ''abc'') = (Inr (), keyed_adapter ''abc'', [])
   \<and> handleSecureMessage demo_provider returning_callback 1700000000250 1700000000300
       (Object (plain_request ''7'' ''GET_CHAIN_ID'')) (keyed_adapter ''abc'')
       = (Inr (), keyed_adapter ''abc'', [])
   \<and> handleSecureMessage demo_provider returning_callback 1700000300001 1700000300002
       (Object (raw_message (signed_with ''abc'' demo_request))) (keyed_adapter ''abc'')
       = (Inr (), keyed_adapter ''abc'', [])
   \<and> handleSecureMessage demo_provider returning_callback 1700000000250 1700000000300
       (Object (raw_message forged_request)) (keyed_adapter ''abc'')
       = (Inr (), keyed_adapter ''abc'', [])
   \<and> handleSecureMessage demo_provider returning_callback 1700000000250 1700000000300
       (Object (raw_message (signed_with ''abc'' demo_request))) answered_adapter
       = (Inr (), answered_adapter, [])"
proof -
  let ?st = "keyed_adapter ''abc''"
  let ?good = "signed_with ''abc'' demo_request"
  let ?bad = "forged_request"
  have keyed: "sharedSecret (authenticator ?st) \<noteq> []"
    by (simp add: keyed_adapter_fields)
  have plain: "\<not> is_secret_exchange (plain_request ''7'' ''GET_CHAIN_ID'')"
    "\<not> truthy (opt_num (raw_timestamp (plain_request ''7'' ''GET_CHAIN_ID'')))"
    by (simp_all add: is_secret_exchange_def plain_request_def)
  have stale: "fst (verifyIncomingMessage 1700000300001 (authenticator ?st) ?good) = False"
    by (simp add: verifyIncomingMessage_stale demo_request_fields keyed_adapter_fields)
  obtain s where s: "expectedSignature ''abc'' demo_request = Some (hmac_hex s ''abc'')"
    using signed_with_installed [of "''abc''" demo_request] demo_request_plain by auto
  have "hmac_hex s ''abc'' \<noteq> ''00''"
    using hmac_hex_length [of s "''abc''"] by auto
  then have "expectedSignature (sharedSecret (authenticator ?st)) ?bad \<noteq> Some (signature ?bad)"
    using s by (simp add: forged_request_fields keyed_adapter_fields)
  then have forged: "fst (verifyIncomingMessage 1700000000250 (authenticator ?st) ?bad) = False"
    by (simp add: verifyIncomingMessage_bad_signature)
  have c1: "handleSecureMessage demo_provider returning_callback 1700000000250 1700000000300 NonObject ?st
              = (Inr (), ?st, [])"
    using silent_drop [OF keyed, of NonObject] by simp
  have c2: "handleSecureMessage demo_provider returning_callback 1700000000250 1700000000300
              (Object (plain_request ''7'' ''GET_CHAIN_ID'')) ?st = (Inr (), ?st, [])"
    using silent_drop [OF keyed, of "Object (plain_request ''7'' ''GET_CHAIN_ID'')"] plain
    by simp
  have c3: "handleSecureMessage demo_provider returning_callback 1700000300001 1700000300002
              (Object (raw_message ?good)) ?st = (Inr (), ?st, [])"
    using silent_drop [OF keyed, of "Object (raw_message ?good)" 1700000300001] stale
      raw_message_not_exchange [of ?good]
    by (simp add: raw_message_fields as_AuthenticatedMessage_raw)
  have c4: "handleSecureMessage demo_provider returning_callback 1700000000250 1700000000300
              (Object (raw_message ?bad)) ?st = (Inr (), ?st, [])"
    using silent_drop [OF keyed, of "Object (raw_message ?bad)" 1700000000250] forged
      raw_message_not_exchange [of ?bad]
    by (simp add: raw_message_fields as_AuthenticatedMessage_raw)
  have keyed': "sharedSecret (authenticator answered_adapter) \<noteq> []"
    by (simp add: answered_adapter_def)
  have replayed: "fst (verifyIncomingMessage 1700000000250 (authenticator answered_adapter) ?good)
                    = False"
    by (simp add: verifyIncomingMessage_replay demo_request_fields answered_adapter_def)
  have c5: "handleSecureMessage demo_provider returning_callback 1700000000250 1700000000300
              (Object (raw_message ?good)) answered_adapter = (Inr (), answered_adapter, [])"
    using silent_drop [OF keyed', of "Object (raw_message ?good)" 1700000000250] replayed
      raw_message_not_exchange [of ?good]
    by (simp add: raw_message_fields as_AuthenticatedMessage_raw)
  show ?thesis using c1 c2 c3 c4 c5 by simp
qed

subsection \<open>The size of the ledger\<close>

text \<open>
  C8, as stated, fails. Nothing in the handler or in \<^verbatim>\<open>verifyIncomingMessage\<close> calls
  \<^verbatim>\<open>cleanupOldNonces\<close>: it runs only when the host calls \<^verbatim>\<open>cleanupNonces\<close>. After an
  exchange and 1001 accepted requests the ledger, at rest, holds 1001 nonces; and it
  does so as well when the host calls \<^verbatim>\<open>cleanupNonces\<close> after the first 1000 of them,
  since a ledger of exactly 1000 nonces is kept.
\<close>

theorem ledger_exceeds_bound:
  "fcard (usedNonces (authenticator
      (deliver demo_provider returning_callback 1700000000250 (sustained_traffic 1001)
         (keyed_adapter ''abc'')))) = 1001
   \<and> fcard (usedNonces (authenticator
      (deliver demo_provider returning_callback 1700000000250 [Object (raw_message (numbered_request 1000))]
         (cleanupNonces
            (deliver demo_provider returning_callback 1700000000250 (sustained_traffic 1000)
               (keyed_adapter ''abc'')))))) = 1001"
proof -
  let ?run = "\<lambda>k. deliver demo_provider returning_callback 1700000000250 (sustained_traffic k)
                     (keyed_adapter ''abc'')"
  have full: "fcard (usedNonces (authenticator (?run 1001))) = 1001"
    by (rule sustained_traffic_ledger)
  have "fcard (usedNonces (authenticator (?run 1000))) = 1000"
    by (rule sustained_traffic_ledger)
  then have "cleanupNonces (?run 1000) = ?run 1000"
    by (simp add: cleanupNonces_within_bound)
  moreover have "deliver demo_provider returning_callback 1700000000250
                   [Object (raw_message (numbered_request 1000))] (?run 1000) = ?run (Suc 1000)"
    by (simp only: sustained_traffic_Suc deliver_append)
  ultimately show ?thesis
    using full by simp
qed

text \<open>
  C8, amended. \<^verbatim>\<open>cleanupOldNonces\<close> clears the ledger entirely whenever its size
  exceeds 1000 and leaves the authenticator unchanged otherwise, so right after a
  cleanup call the ledger holds at most 1000 nonces; a verification adds at most one
  nonce, and nothing bounds the ledger between two cleanup calls.
\<close>

theorem cleanup_bounds_ledger:
  "cleanupOldNonces a = (if 1000 < fcard (usedNonces a) then a\<lparr>usedNonces := {||}\<rparr> else a)
   \<and> fcard (usedNonces (cleanupOldNonces a)) \<le> 1000
   \<and> fcard (usedNonces (snd (verifyIncomingMessage now a m))) \<le> Suc (fcard (usedNonces a))"
proof -
  have "fcard (finsert (nonce m) (usedNonces a)) \<le> Suc (fcard (usedNonces a))"
    by (simp add: fcard_finsert_if)
  then show ?thesis
    by (auto simp: cleanupOldNonces_def verifyIncomingMessage_unfold fcard_fempty
        split: option.splits)
qed

theorem cleanup_bounds_ledger_witness:
  "usedNonces (cleanupOldNonces (authenticator
      (deliver demo_provider returning_callback 1700000000250 (sustained_traffic 1001)
         (keyed_adapter ''abc'')))) = {||}
   \<and> cleanupOldNonces (authenticator
      (deliver demo_provider returning_callback 1700000000250 (sustained_traffic 1000)
         (keyed_adapter ''abc'')))
     = authenticator
      (deliver demo_provider returning_callback 1700000000250 (sustained_traffic 1000)
         (keyed_adapter ''abc''))"
  using cleanup_bounds_ledger [of "authenticator
      (deliver demo_provider returning_callback 1700000000250 (sustained_traffic 1001)
         (keyed_adapter ''abc''))"]
    cleanup_bounds_ledger [of "authenticator
      (deliver demo_provider returning_callback 1700000000250 (sustained_traffic 1000)
         (keyed_adapter ''abc''))"]
  by (simp add: sustained_traffic_ledger)

subsection \<open>The shape of a signed response\<close>

text \<open>
  C9, as stated, fails. \<^verbatim>\<open>processWalletRequest\<close> starts its response with
  \<^verbatim>\<open>data: null\<close> and a failure leaves it there, so the signed response to a validated
  request that fails carries \<^verbatim>\<open>success: false\<close> together with a \<^verbatim>\<open>data\<close> field, whose
  value is \<^verbatim>\<open>null\<close>.
\<close>

theorem failed_response_carries_data:
  "map (\<lambda>r. (js_get r ''success'', js_get r ''data'', field_present r ''data''))
     (posted_messages (snd (snd
        (handleSecureMessage demo_provider returning_callback 1700000000250 1700000000300
           (Object (raw_message unsupported_request)) (keyed_adapter ''abc'')))))
     = [(JBool False, JNull, True)]"
proof -
  let ?st = "keyed_adapter ''abc''"
  let ?a1 = "(authenticator ?st)\<lparr>usedNonces := finsert ''n1'' (usedNonces (authenticator ?st))\<rparr>"
  let ?response = "JObj [(''requestId'', JStr ''1''), (''success'', JBool False),
                         (''data'', JNull),
                         (''error'', JStr ''Unsupported action: TRANSFER_FUNDS'')]"
  have v: "verifyIncomingMessage 1700000000250 (authenticator ?st) unsupported_request
             = (True, ?a1)"
    using unsupported_request_signed(1)
    by (simp add: verifyIncomingMessage_accepts keyed_adapter_fields unsupported_request_fields)
  have p: "processWalletRequest demo_provider
             (stripAuthenticationFields (raw_message unsupported_request)) (window ?st)
             = (Inr ?response, demo_window)"
    by (simp add: processWalletRequest_def wallet_operation_def stripAuthenticationFields_def
        raw_message_fields unsupported_request_fields keyed_adapter_fields demo_window_def
        new_Error_def nullish_def)
  have "sharedSecret ?a1 \<noteq> []"
    by (simp add: keyed_adapter_fields)
  moreover have "\<not> has_bigint (JObj (responseData 1700000000300 ?response))"
    by (simp add: responseData_def)
  ultimately obtain s where
    s: "signResponse 1700000000300 ?a1 ?response
          = Inr (JObj (responseData 1700000000300 ?response
                       @ [(''signature'', JStr (hmac_hex s (sharedSecret ?a1)))]))"
    using signResponse_installed [of ?a1 1700000000300 ?response] by blast
  have "handleSecureMessage demo_provider returning_callback 1700000000250 1700000000300
           (Object (raw_message unsupported_request)) ?st
          = (Inr (), \<lparr>authenticator = ?a1, window = demo_window\<rparr>,
             [ProcessWalletRequest (stripAuthenticationFields (raw_message unsupported_request)),
              PostMessage (JObj (responseData 1700000000300 ?response
                       @ [(''signature'', JStr (hmac_hex s (sharedSecret ?a1)))]))])"
    using handler_signed_request [OF _ _ unsupported_request_signed(2) _ _ v p s, of returning_callback]
    by (simp add: unsupported_request_fields keyed_adapter_fields)
  then show ?thesis
    by (simp add: posted_messages_def field_present_def responseData_def)
qed

text \<open>
  C9, amended. In every signed response posted for a validated request, the
  \<^verbatim>\<open>requestId\<close> echoes the request's, \<^verbatim>\<open>success\<close> is a boolean, and the \<^verbatim>\<open>error\<close>
  field is present if and only if \<^verbatim>\<open>success\<close> is false. When \<^verbatim>\<open>success\<close> is false the
  \<^verbatim>\<open>data\<close> field is \<^verbatim>\<open>null\<close>; when it is true, \<^verbatim>\<open>data\<close> is the result of the wallet
  operation. The response carries the signing clock as \<^verbatim>\<open>timestamp\<close>, and a
  \<^verbatim>\<open>signature\<close>.
\<close>

theorem secure_response_fields:
  assumes "requestId m = Some rid" and "rid \<noteq> []"
      and "\<not> is_secret_exchange m"
      and "sharedSecret (authenticator st) \<noteq> []"
      and "r \<in> set (posted_messages (snd (snd
              (handleSecureMessage P callback now later (Object m) st))))"
  shows "js_get r ''requestId'' = JStr rid
         \<and> (js_get r ''success'' = JBool True \<or> js_get r ''success'' = JBool False)
         \<and> field_present r ''error'' = (js_get r ''success'' = JBool False)
         \<and> (js_get r ''success'' = JBool False \<longrightarrow> js_get r ''data'' = JNull)
         \<and> (js_get r ''success'' = JBool True \<longrightarrow>
              fst (wallet_operation P (stripAuthenticationFields m) (window st))
                = Inr (js_get r ''data''))
         \<and> js_get r ''timestamp'' = JNum later
         \<and> field_present r ''signature''"
proof -
  let ?req = "stripAuthenticationFields m"
  obtain ok a1 where v: "validateIncomingMessage now (authenticator st) m = (ok, a1)"
    by (cases "validateIncomingMessage now (authenticator st) m")
  obtain outcome w1 where p0: "processWalletRequest P ?req (window st) = (outcome, w1)"
    by (cases "processWalletRequest P ?req (window st)")
  have rid: "truthy (opt_str (requestId m))"
    using assms(1,2) by simp
  have ok
  proof (rule ccontr)
    assume "\<not> ok"
    then have "handleSecureMessage P callback now later (Object m) st
                 = (Inr (), st\<lparr>authenticator := a1\<rparr>, [])"
      using rid assms(3,4) v by (simp add: handleSecureMessage_def getSharedSecret_def)
    then show False
      using assms(5) by (simp add: posted_messages_def)
  qed
  then have valid: "validateIncomingMessage now (authenticator st) m = (True, a1)"
    using v by simp
  have "\<exists>response. outcome = Inr response"
  proof (cases outcome)
    case (Inl e)
    then have "handleSecureMessage P callback now later (Object m) st
                 = (Inl e, \<lparr>authenticator = a1, window = w1\<rparr>, [ProcessWalletRequest ?req])"
      using handler_dispatcher_throws [OF rid assms(3,4) valid, of P e w1 callback later] p0
      by simp
    then show ?thesis
      using assms(5) by (simp add: posted_messages_def)
  next
    case (Inr response)
    then show ?thesis by simp
  qed
  then obtain response where p: "processWalletRequest P ?req (window st) = (Inr response, w1)"
    using p0 by blast
  have "handleSecureMessage P callback now later (Object m) st
               = (fst (send_secure_response later a1 response),
                  \<lparr>authenticator = a1, window = w1\<rparr>,
                  ProcessWalletRequest ?req # snd (send_secure_response later a1 response))"
    using handler_accepts [OF rid assms(3,4) valid p, of callback later] by simp
  then have "signResponse later a1 response = Inr r"
    using assms(5)
    by (auto simp: posted_messages_def send_secure_response_def createSecureResponse_def
        split: sum.splits)
  then obtain sig where
    r: "r = JObj (responseData later response @ [(''signature'', JStr sig)])"
    using signResponse_Inr by blast
  have req: "opt_str (requestId ?req) = JStr rid"
    using assms(1) by (simp add: stripAuthenticationFields_def)
  from processWalletRequest_cases [of P ?req "window st"] show ?thesis
  proof (elim disjE exE conjE)
    fix result w2
    assume "wallet_operation P ?req (window st) = (Inr result, w2)"
      and "processWalletRequest P ?req (window st)
             = (Inr (JObj [(''requestId'', opt_str (requestId ?req)), (''success'', JBool True),
                           (''data'', result), (''error'', JUndefined)]), w2)"
    then show ?thesis
      using p r req by (simp add: responseData_def field_present_def)
  next
    fix err w2
    assume "wallet_operation P ?req (window st) = (Inl err, w2)"
      and "processWalletRequest P ?req (window st)
             = (Inr (JObj [(''requestId'', opt_str (requestId ?req)), (''success'', JBool False),
                           (''data'', JNull),
                           (''error'', if truthy (js_get err ''message'')
                                       then js_get err ''message''
                                       else JStr ''Wallet operation failed'')]),
                w2)"
    then show ?thesis
      using p r req truthy_defined [of "js_get err ''message''"]
      by (auto simp: responseData_def field_present_def)
  next
    fix err w2
    assume "processWalletRequest P ?req (window st) = (Inl TypeError, w2)"
    then show ?thesis
      using p by simp
  qed
qed

theorem secure_response_fields_witness:
  "map (\<lambda>r. (js_get r ''requestId'', js_get r ''success'', js_get r ''data'',
             field_present r ''error'', js_get r ''timestamp'', field_present r ''signature''))
     (posted_messages (snd (snd
        (handleSecureMessage demo_provider returning_callback 1700000000250 1700000000300
           (Object (raw_message (signed_with ''abc'' demo_request))) (keyed_adapter ''abc'')))))
     = [(JStr ''1'', JBool True, JStr ''0x1'', False, JNum 1700000000300, True)]"
proof -
  let ?st = "keyed_adapter ''abc''"
  let ?m = "signed_with ''abc'' demo_request"
  let ?a1 = "(authenticator ?st)\<lparr>usedNonces := finsert ''n1'' (usedNonces (authenticator ?st))\<rparr>"
  let ?response = "JObj [(''requestId'', JStr ''1''), (''success'', JBool True),
                         (''data'', JStr ''0x1''), (''error'', JUndefined)]"
  have v: "verifyIncomingMessage 1700000000250 (authenticator ?st) ?m = (True, ?a1)"
    using demo_request_signature(1) [of "''abc''"]
    by (simp add: verifyIncomingMessage_accepts keyed_adapter_fields demo_request_fields)
  have p: "processWalletRequest demo_provider (stripAuthenticationFields (raw_message ?m))
             (window ?st) = (Inr ?response, demo_window)"
    by (simp add: processWalletRequest_def wallet_operation_def get_chain_id_def call_def
        demo_provider_def stripAuthenticationFields_def raw_message_fields demo_request_fields
        keyed_adapter_fields demo_window_def)
  have "sharedSecret ?a1 \<noteq> []"
    by (simp add: keyed_adapter_fields)
  moreover have "\<not> has_bigint (JObj (responseData 1700000000300 ?response))"
    by (simp add: responseData_def)
  ultimately obtain s where
    s: "signResponse 1700000000300 ?a1 ?response
          = Inr (JObj (responseData 1700000000300 ?response
                       @ [(''signature'', JStr (hmac_hex s (sharedSecret ?a1)))]))"
    using signResponse_installed [of ?a1 1700000000300 ?response] by blast
  let ?r = "JObj (responseData 1700000000300 ?response
                  @ [(''signature'', JStr (hmac_hex s (sharedSecret ?a1)))])"
  have run: "handleSecureMessage demo_provider returning_callback 1700000000250 1700000000300
           (Object (raw_message ?m)) ?st
          = (Inr (), \<lparr>authenticator = ?a1, window = demo_window\<rparr>,
             [ProcessWalletRequest (stripAuthenticationFields (raw_message ?m)), PostMessage ?r])"
    using handler_signed_request [OF _ _ demo_request_signature(2) _ _ v p s, of returning_callback]
    by (simp add: demo_request_fields keyed_adapter_fields)
  then have posted: "posted_messages (snd (snd
        (handleSecureMessage demo_provider returning_callback 1700000000250 1700000000300
           (Object (raw_message ?m)) ?st))) = [?r]"
    by (simp add: posted_messages_def)
  have success: "js_get ?r ''success'' = JBool True" "js_get ?r ''data'' = JStr ''0x1''"
    by (simp_all add: responseData_def)
  have "js_get ?r ''requestId'' = JStr ''1''
         \<and> field_present ?r ''error'' = (js_get ?r ''success'' = JBool False)
         \<and> js_get ?r ''timestamp'' = JNum 1700000000300
         \<and> field_present ?r ''signature''"
    using secure_response_fields [of "raw_message ?m" "''1''" ?st ?r demo_provider returning_callback
        1700000000250 1700000000300] posted raw_message_not_exchange [of ?m]
    by (simp add: raw_message_fields demo_request_fields keyed_adapter_fields)
  then show ?thesis
    using posted success by simp
qed

end
